theory Spec2Isabelle
  imports Main "HOL-Library.Multiset"
begin

section \<open>Values exchanged with the database driver\<close>

text \<open>
  The application (\<^verbatim>\<open>app.py\<close>) is a thin data-access layer over PostgreSQL, reached
  through a psycopg2 connection pool, and a Streamlit presentation layer.  The functions
  of \<^verbatim>\<open>app.py\<close> are embedded one by one; the store, the pool and the page are explicit
  state (the record \<open>world\<close> below), and every call that can raise in Python returns
  the exception as a value.

  Python strings are lists of characters; Python \<^verbatim>\<open>None\<close> (SQL \<^verbatim>\<open>NULL\<close>) is \<open>None\<close>
  of an option type.  A timestamp is a number (the instant on the clock).  A price is the
  exact number of hundredths of the \<^verbatim>\<open>DECIMAL(10, 2)\<close> column; the binary floating point
  of Python and pandas is not represented.
\<close>

type_synonym timestamp = int

datatype exn =
    IntegrityError string
  | DataError string
  | OperationalError string
  | InterfaceError string
  | PoolError string
  | OtherException string

text \<open>\<^verbatim>\<open>str(e)\<close>: the message an exception carries.\<close>

fun str_exn :: "exn \<Rightarrow> string" where
  "str_exn (IntegrityError m) = m"
| "str_exn (DataError m) = m"
| "str_exn (OperationalError m) = m"
| "str_exn (InterfaceError m) = m"
| "str_exn (PoolError m) = m"
| "str_exn (OtherException m) = m"

text \<open>\<^verbatim>\<open>except psycopg2.IntegrityError\<close> selects exactly the first class.\<close>

fun is_IntegrityError :: "exn \<Rightarrow> bool" where
  "is_IntegrityError (IntegrityError m) = True"
| "is_IntegrityError e = False"

section \<open>The store: two tables as declared by \<^verbatim>\<open>init_database\<close>\<close>

text \<open>
  \<^verbatim>\<open>customers (id SERIAL PRIMARY KEY, name VARCHAR(255) NOT NULL,
  email VARCHAR(255) UNIQUE NOT NULL, phone VARCHAR(50), city VARCHAR(100),
  created_date TIMESTAMP DEFAULT CURRENT_TIMESTAMP)\<close>.  The fields carry the prefix
  \<open>c_\<close>; columns without \<^verbatim>\<open>NOT NULL\<close> are options.
\<close>

record customer =
  c_id :: int
  c_name :: string
  c_email :: string
  c_phone :: "string option"
  c_city :: "string option"
  c_created_date :: "timestamp option"

text \<open>
  \<^verbatim>\<open>inventory (id SERIAL PRIMARY KEY, product_name VARCHAR(255) NOT NULL,
  category VARCHAR(100), quantity INTEGER, price DECIMAL(10, 2),
  last_updated TIMESTAMP DEFAULT CURRENT_TIMESTAMP)\<close>.
\<close>

record item =
  i_id :: int
  i_product_name :: string
  i_category :: "string option"
  i_quantity :: "int option"
  i_price :: "int option"
  i_last_updated :: "timestamp option"

text \<open>
  A table is the list of its rows in heap order (not ordered by id).  Each \<^verbatim>\<open>SERIAL\<close>
  column draws from a sequence; the field holds the value the next \<^verbatim>\<open>nextval\<close> returns.
\<close>

record database =
  customers :: "customer list"
  customers_id_seq :: int
  inventory :: "item list"
  inventory_id_seq :: int

subsection \<open>Column types\<close>

fun show_nat :: "nat \<Rightarrow> string" where
  "show_nat n = (if n < 10 then [''0123456789'' ! n]
                 else show_nat (n div 10) @ [''0123456789'' ! (n mod 10)])"

declare show_nat.simps [simp del]

text \<open>
  Assignment to \<^verbatim>\<open>VARCHAR(n)\<close>: a longer value is an error unless the excess is all
  spaces, in which case it is cut to \<open>n\<close> characters.
\<close>

definition varchar :: "nat \<Rightarrow> string option \<Rightarrow> exn + string option" where
  "varchar n v =
     (case v of
        None \<Rightarrow> Inr None
      | Some s \<Rightarrow>
          if length s \<le> n then Inr (Some s)
          else if list_all (\<lambda>c. c = CHR '' '') (drop n s) then Inr (Some (take n s))
          else Inl (DataError (''value too long for type character varying(''
                               @ show_nat n @ '')'')))"

text \<open>Assignment to \<^verbatim>\<open>INTEGER\<close> (32 bits, signed).\<close>

definition int4 :: "int option \<Rightarrow> exn + int option" where
  "int4 v =
     (case v of
        None \<Rightarrow> Inr None
      | Some q \<Rightarrow>
          if - 2147483648 \<le> q \<and> q \<le> 2147483647 then Inr (Some q)
          else Inl (DataError ''integer out of range''))"

text \<open>Assignment to \<^verbatim>\<open>DECIMAL(10, 2)\<close>: at most eight digits before the point.\<close>

definition decimal_10_2 :: "int option \<Rightarrow> exn + int option" where
  "decimal_10_2 v =
     (case v of
        None \<Rightarrow> Inr None
      | Some p \<Rightarrow>
          if \<bar>p\<bar> < 10000000000 then Inr (Some p)
          else Inl (DataError ''numeric field overflow''))"

definition not_null_violation :: "string \<Rightarrow> exn" where
  "not_null_violation col =
     IntegrityError (''null value in column '' @ [CHR 0x22] @ col @ [CHR 0x22]
                     @ '' violates not-null constraint'')"

definition unique_violation :: "string \<Rightarrow> exn" where
  "unique_violation idx =
     IntegrityError (''duplicate key value violates unique constraint ''
                     @ [CHR 0x22] @ idx @ [CHR 0x22])"

subsection \<open>The six statements of the data access functions\<close>

text \<open>
  A statement maps the state of the store to an optional error and the state after the
  statement.  The values are first converted to the column types (a \<open>DataError\<close>);
  then the constraints are checked on each row written (an \<open>IntegrityError\<close>).  A failed
  statement leaves the tables as they were; a sequence value drawn by it stays drawn.

  \<^verbatim>\<open>INSERT INTO customers (name, email, phone, city, created_date)
  VALUES (%s, %s, %s, %s, %s)\<close>
\<close>

definition insert_customer ::
    "string option \<Rightarrow> string option \<Rightarrow> string option \<Rightarrow> string option \<Rightarrow> timestamp
     \<Rightarrow> database \<Rightarrow> exn option \<times> database" where
  "insert_customer name email phone city now d =
     (case varchar 255 name of Inl e \<Rightarrow> (Some e, d) | Inr name' \<Rightarrow>
      case varchar 255 email of Inl e \<Rightarrow> (Some e, d) | Inr email' \<Rightarrow>
      case varchar 50 phone of Inl e \<Rightarrow> (Some e, d) | Inr phone' \<Rightarrow>
      case varchar 100 city of Inl e \<Rightarrow> (Some e, d) | Inr city' \<Rightarrow>
      let new_id = customers_id_seq d;
          d1 = d\<lparr>customers_id_seq := new_id + 1\<rparr>
      in case name' of None \<Rightarrow> (Some (not_null_violation ''name''), d1) | Some n \<Rightarrow>
         case email' of None \<Rightarrow> (Some (not_null_violation ''email''), d1) | Some m \<Rightarrow>
         if new_id \<in> set (map c_id (customers d))
           then (Some (unique_violation ''customers_pkey''), d1)
         else if m \<in> set (map c_email (customers d))
           then (Some (unique_violation ''customers_email_key''), d1)
         else (None, d1\<lparr>customers := customers d @
                 [\<lparr>c_id = new_id, c_name = n, c_email = m, c_phone = phone',
                   c_city = city', c_created_date = Some now\<rparr>]\<rparr>))"

text \<open>
  \<^verbatim>\<open>UPDATE customers SET name=%s, email=%s, phone=%s, city=%s WHERE id=%s\<close>.
  The constraints are checked on the rows the statement writes, so a statement that
  matches no row checks none.  The primary key makes the matched row unique.
\<close>

definition update_customers ::
    "int \<Rightarrow> string option \<Rightarrow> string option \<Rightarrow> string option \<Rightarrow> string option
     \<Rightarrow> database \<Rightarrow> exn option \<times> database" where
  "update_customers cid name email phone city d =
     (case varchar 255 name of Inl e \<Rightarrow> (Some e, d) | Inr name' \<Rightarrow>
      case varchar 255 email of Inl e \<Rightarrow> (Some e, d) | Inr email' \<Rightarrow>
      case varchar 50 phone of Inl e \<Rightarrow> (Some e, d) | Inr phone' \<Rightarrow>
      case varchar 100 city of Inl e \<Rightarrow> (Some e, d) | Inr city' \<Rightarrow>
      if cid \<notin> set (map c_id (customers d)) then (None, d)
      else case name' of None \<Rightarrow> (Some (not_null_violation ''name''), d) | Some n \<Rightarrow>
           case email' of None \<Rightarrow> (Some (not_null_violation ''email''), d) | Some m \<Rightarrow>
           if list_ex (\<lambda>r. c_id r \<noteq> cid \<and> c_email r = m) (customers d)
             then (Some (unique_violation ''customers_email_key''), d)
           else (None, d\<lparr>customers :=
                   map (\<lambda>r. if c_id r = cid
                             then r\<lparr>c_name := n, c_email := m, c_phone := phone',
                                   c_city := city'\<rparr>
                             else r) (customers d)\<rparr>))"

text \<open>\<^verbatim>\<open>DELETE FROM customers WHERE id=%s\<close>\<close>

definition delete_customers :: "int \<Rightarrow> database \<Rightarrow> exn option \<times> database" where
  "delete_customers cid d =
     (None, d\<lparr>customers := filter (\<lambda>r. c_id r \<noteq> cid) (customers d)\<rparr>)"

text \<open>
  \<^verbatim>\<open>INSERT INTO inventory (product_name, category, quantity, price, last_updated)
  VALUES (%s, %s, %s, %s, %s)\<close>
\<close>

definition insert_inventory ::
    "string option \<Rightarrow> string option \<Rightarrow> int option \<Rightarrow> int option \<Rightarrow> timestamp
     \<Rightarrow> database \<Rightarrow> exn option \<times> database" where
  "insert_inventory product_name category quantity price now d =
     (case varchar 255 product_name of Inl e \<Rightarrow> (Some e, d) | Inr product_name' \<Rightarrow>
      case varchar 100 category of Inl e \<Rightarrow> (Some e, d) | Inr category' \<Rightarrow>
      case int4 quantity of Inl e \<Rightarrow> (Some e, d) | Inr quantity' \<Rightarrow>
      case decimal_10_2 price of Inl e \<Rightarrow> (Some e, d) | Inr price' \<Rightarrow>
      let new_id = inventory_id_seq d;
          d1 = d\<lparr>inventory_id_seq := new_id + 1\<rparr>
      in case product_name' of
           None \<Rightarrow> (Some (not_null_violation ''product_name''), d1)
         | Some n \<Rightarrow>
             if new_id \<in> set (map i_id (inventory d))
               then (Some (unique_violation ''inventory_pkey''), d1)
             else (None, d1\<lparr>inventory := inventory d @
                     [\<lparr>i_id = new_id, i_product_name = n, i_category = category',
                       i_quantity = quantity', i_price = price',
                       i_last_updated = Some now\<rparr>]\<rparr>))"

text \<open>
  \<^verbatim>\<open>UPDATE inventory SET product_name=%s, category=%s, quantity=%s, price=%s,
  last_updated=%s WHERE id=%s\<close>
\<close>

definition update_inventory ::
    "int \<Rightarrow> string option \<Rightarrow> string option \<Rightarrow> int option \<Rightarrow> int option \<Rightarrow> timestamp
     \<Rightarrow> database \<Rightarrow> exn option \<times> database" where
  "update_inventory iid product_name category quantity price now d =
     (case varchar 255 product_name of Inl e \<Rightarrow> (Some e, d) | Inr product_name' \<Rightarrow>
      case varchar 100 category of Inl e \<Rightarrow> (Some e, d) | Inr category' \<Rightarrow>
      case int4 quantity of Inl e \<Rightarrow> (Some e, d) | Inr quantity' \<Rightarrow>
      case decimal_10_2 price of Inl e \<Rightarrow> (Some e, d) | Inr price' \<Rightarrow>
      if iid \<notin> set (map i_id (inventory d)) then (None, d)
      else case product_name' of
             None \<Rightarrow> (Some (not_null_violation ''product_name''), d)
           | Some n \<Rightarrow>
               (None, d\<lparr>inventory :=
                  map (\<lambda>r. if i_id r = iid
                            then r\<lparr>i_product_name := n, i_category := category',
                                  i_quantity := quantity', i_price := price',
                                  i_last_updated := Some now\<rparr>
                            else r) (inventory d)\<rparr>))"

text \<open>\<^verbatim>\<open>DELETE FROM inventory WHERE id=%s\<close>\<close>

definition delete_inventory :: "int \<Rightarrow> database \<Rightarrow> exn option \<times> database" where
  "delete_inventory iid d =
     (None, d\<lparr>inventory := filter (\<lambda>r. i_id r \<noteq> iid) (inventory d)\<rparr>)"

text \<open>
  A rollback undoes the tables of the open transaction; the sequences are not
  transactional and keep the values drawn.
\<close>

definition rolled_back :: "database \<Rightarrow> database \<Rightarrow> database" where
  "rolled_back committed cur =
     committed\<lparr>customers_id_seq := customers_id_seq cur,
               inventory_id_seq := inventory_id_seq cur\<rparr>"

section \<open>The process: pool, connection, page\<close>

text \<open>
  \<^verbatim>\<open>psycopg2.pool.SimpleConnectionPool(1, 10, ...)\<close>: the connections at rest
  (\<open>idle\<close>), those handed out (\<open>used\<close>), and the number the next new connection gets.
\<close>

record pool =
  idle :: "nat list"
  used :: "nat list"
  fresh :: nat

definition minconn :: nat where
  "minconn = 1"

definition maxconn :: nat where
  "maxconn = 10"

text \<open>What a Python value returned by a data access function can be.\<close>

datatype cell = CInt int | CStr string | CDec int | CTime timestamp | CNull

record dataframe =
  columns :: "string list"
  rows :: "cell list list"

datatype pyval =
    PyNone
  | PyStr string
  | PyTuple bool string
  | PyFrame dataframe

datatype 'a outcome = Returned 'a | Raised exn

text \<open>The elements a script run puts on the page.\<close>

datatype element =
    Error string
  | Info string
  | Subheader string
  | Metric string string
  | Dataframe dataframe
  | DownloadButton string string string string

text \<open>
  What \<^verbatim>\<open>@st.cache_resource\<close> keeps for \<^verbatim>\<open>init_connection_pool\<close>: the value
  returned by the one execution of the body, and the elements that execution put on the
  page, which are shown again on every later call.
\<close>

datatype cache_entry = Entry "pool option" "element list"

text \<open>
  Calls into the driver that fail for reasons outside the statement (a lost connection,
  a closed connection): \<open>Some e\<close> makes the call raise \<open>e\<close>.
\<close>

record faults =
  cursor_fault :: "exn option"
  execute_fault :: "exn option"
  commit_fault :: "exn option"
  rollback_fault :: "exn option"

text \<open>
  The state of the process and its surroundings: the committed store \<open>db\<close>, the open
  transaction \<open>tx\<close> of the connection in use, whether a new server connection can be
  opened (\<open>connect_error\<close>), the faults, the clock, the resource cache, the page, and a
  count of the executions of \<^verbatim>\<open>SimpleConnectionPool(...)\<close>.
\<close>

record world =
  db :: database
  tx :: "database option"
  connect_error :: "exn option"
  faults :: faults
  clock :: timestamp
  cache :: "cache_entry option"
  ui :: "element list"
  pool_creations :: nat

definition st_error :: "string \<Rightarrow> world \<Rightarrow> world" where
  "st_error msg w = w\<lparr>ui := ui w @ [Error msg]\<rparr>"

definition datetime_now :: "world \<Rightarrow> timestamp" where
  "datetime_now w = clock w"

subsection \<open>\<^verbatim>\<open>init_connection_pool\<close> (lines 10-24)\<close>

definition new_pool :: pool where
  "new_pool = \<lparr>idle = [0], used = [], fresh = 1\<rparr>"

definition init_connection_pool :: "world \<Rightarrow> pool option \<times> world" where
  "init_connection_pool w =
     (case cache w of
        Some (Entry p msgs) \<Rightarrow> (p, w\<lparr>ui := ui w @ msgs\<rparr>)
      | None \<Rightarrow>
          (case connect_error w of
             None \<Rightarrow>
               (Some new_pool,
                w\<lparr>cache := Some (Entry (Some new_pool) []),
                  pool_creations := Suc (pool_creations w)\<rparr>)
           | Some e \<Rightarrow>
               (None,
                w\<lparr>cache := Some (Entry None
                             [Error (''Error connecting to database: '' @ str_exn e)]),
                  ui := ui w @ [Error (''Error connecting to database: '' @ str_exn e)],
                  pool_creations := Suc (pool_creations w)\<rparr>)))"

subsection \<open>The pool's \<^verbatim>\<open>getconn\<close> and \<^verbatim>\<open>putconn\<close>\<close>

text \<open>The pool is one shared object: its state lives in the cache entry.\<close>

definition set_pool :: "pool \<Rightarrow> world \<Rightarrow> world" where
  "set_pool p w =
     (case cache w of
        Some (Entry q msgs) \<Rightarrow> w\<lparr>cache := Some (Entry (Some p) msgs)\<rparr>
      | None \<Rightarrow> w)"

definition the_pool :: "world \<Rightarrow> pool option" where
  "the_pool w = (case cache w of Some (Entry p msgs) \<Rightarrow> p | None \<Rightarrow> None)"

definition getconn :: "pool \<Rightarrow> world \<Rightarrow> exn + (nat \<times> world)" where
  "getconn p w =
     (if idle p \<noteq> []
        then Inr (last (idle p),
                  set_pool (p\<lparr>idle := butlast (idle p),
                              used := used p @ [last (idle p)]\<rparr>) w)
      else if maxconn \<le> length (used p)
        then Inl (PoolError ''connection pool exhausted'')
      else (case connect_error w of
              Some e \<Rightarrow> Inl e
            | None \<Rightarrow>
                Inr (fresh p,
                     set_pool (p\<lparr>used := used p @ [fresh p],
                                 fresh := Suc (fresh p)\<rparr>) w)))"

text \<open>
  \<open>putconn\<close> ends whatever transaction the connection still has open, takes the
  connection out of \<open>used\<close>, and keeps it at rest unless \<open>minconn\<close> connections already
  are (then it is closed).  The pool of the driver also discards a connection it finds
  closed; connections have no state of their own here, so that is not represented.
\<close>

definition putconn :: "nat \<Rightarrow> world \<Rightarrow> world" where
  "putconn conn w =
     (let w1 = (case tx w of
                  None \<Rightarrow> w
                | Some cur \<Rightarrow> w\<lparr>db := rolled_back (db w) cur, tx := None\<rparr>)
      in case the_pool w1 of
           None \<Rightarrow> w1
         | Some p \<Rightarrow>
             set_pool (p\<lparr>idle := (if length (idle p) < minconn then idle p @ [conn]
                                   else idle p),
                         used := remove1 conn (used p)\<rparr>) w1)"

subsection \<open>\<^verbatim>\<open>get_db_connection\<close> (lines 26-38)\<close>

text \<open>
  The context manager, applied to the body of the \<^verbatim>\<open>with\<close> block.  No pool: the body
  runs with \<^verbatim>\<open>None\<close>.  Otherwise \<open>getconn\<close> runs before the \<^verbatim>\<open>try\<close>, and
  \<open>putconn\<close> in the \<^verbatim>\<open>finally\<close>, whether the body returned or raised.
\<close>

definition get_db_connection ::
    "(nat option \<Rightarrow> world \<Rightarrow> 'a outcome \<times> world) \<Rightarrow> world \<Rightarrow> 'a outcome \<times> world" where
  "get_db_connection body w =
     (case init_connection_pool w of
        (None, w1) \<Rightarrow> body None w1
      | (Some p, w1) \<Rightarrow>
          (case getconn p w1 of
             Inl e \<Rightarrow> (Raised e, w1)
           | Inr (conn, w2) \<Rightarrow>
               (case body (Some conn) w2 of
                  (r, w3) \<Rightarrow> (r, putconn conn w3))))"

subsection \<open>Calls on the connection\<close>

definition conn_cursor :: "world \<Rightarrow> exn option" where
  "conn_cursor w = cursor_fault (faults w)"

text \<open>
  \<^verbatim>\<open>cursor.execute(sql, params)\<close>: the driver first writes the text parameters into
  the statement (a text with a NUL character cannot be written: a \<^verbatim>\<open>ValueError\<close>), then
  the statement runs in the connection's transaction.
\<close>

definition has_nul :: "string option \<Rightarrow> bool" where
  "has_nul v = (case v of None \<Rightarrow> False | Some s \<Rightarrow> CHR 0x00 \<in> set s)"

definition adapt_error :: "string option list \<Rightarrow> exn option" where
  "adapt_error params =
     (if list_ex has_nul params
      then Some (OtherException ''A string literal cannot contain NUL (0x00) characters.'')
      else None)"

definition cursor_execute ::
    "(database \<Rightarrow> exn option \<times> database) \<Rightarrow> string option list
     \<Rightarrow> world \<Rightarrow> exn option \<times> world" where
  "cursor_execute stmt params w =
     (case adapt_error params of
        Some e \<Rightarrow> (Some e, w)
      | None \<Rightarrow>
          (case execute_fault (faults w) of
             Some e \<Rightarrow> (Some e, w)
           | None \<Rightarrow>
               (case stmt (case tx w of None \<Rightarrow> db w | Some cur \<Rightarrow> cur) of
                  (err, cur') \<Rightarrow> (err, w\<lparr>tx := Some cur'\<rparr>))))"

definition conn_commit :: "world \<Rightarrow> exn option \<times> world" where
  "conn_commit w =
     (case commit_fault (faults w) of
        Some e \<Rightarrow> (Some e, w)
      | None \<Rightarrow>
          (None, (case tx w of
                    None \<Rightarrow> w
                  | Some cur \<Rightarrow> w\<lparr>db := cur, tx := None\<rparr>)))"

definition conn_rollback :: "world \<Rightarrow> exn option \<times> world" where
  "conn_rollback w =
     (case rollback_fault (faults w) of
        Some e \<Rightarrow> (Some e, w)
      | None \<Rightarrow>
          (None, (case tx w of
                    None \<Rightarrow> w
                  | Some cur \<Rightarrow> w\<lparr>db := rolled_back (db w) cur, tx := None\<rparr>)))"

text \<open>
  The handler shared by the \<^verbatim>\<open>except\<close> clauses: \<^verbatim>\<open>conn.rollback()\<close>, then
  \<^verbatim>\<open>return\<close> the value.  A rollback that raises leaves the function by that exception.
\<close>

definition rollback_and_return :: "pyval \<Rightarrow> world \<Rightarrow> pyval outcome \<times> world" where
  "rollback_and_return v w =
     (case conn_rollback w of
        (Some e, w1) \<Rightarrow> (Raised e, w1)
      | (None, w1) \<Rightarrow> (Returned v, w1))"

text \<open>
  The body of a \<^verbatim>\<open>try\<close> block of the writing functions: \<^verbatim>\<open>cursor.execute(...)\<close>
  then \<^verbatim>\<open>conn.commit()\<close>; the first exception ends it.
\<close>

definition execute_and_commit ::
    "(database \<Rightarrow> exn option \<times> database) \<Rightarrow> string option list
     \<Rightarrow> world \<Rightarrow> exn option \<times> world" where
  "execute_and_commit stmt params w =
     (case cursor_execute stmt params w of
        (Some e, w1) \<Rightarrow> (Some e, w1)
      | (None, w1) \<Rightarrow> conn_commit w1)"

section \<open>Reading a table into a frame\<close>

definition opt_cell :: "('a \<Rightarrow> cell) \<Rightarrow> 'a option \<Rightarrow> cell" where
  "opt_cell f v = (case v of None \<Rightarrow> CNull | Some x \<Rightarrow> f x)"

definition customer_columns :: "string list" where
  "customer_columns = [''id'', ''name'', ''email'', ''phone'', ''city'', ''created_date'']"

definition customer_cells :: "customer \<Rightarrow> cell list" where
  "customer_cells r =
     [CInt (c_id r), CStr (c_name r), CStr (c_email r), opt_cell CStr (c_phone r),
      opt_cell CStr (c_city r), opt_cell CTime (c_created_date r)]"

definition inventory_columns :: "string list" where
  "inventory_columns =
     [''id'', ''product_name'', ''category'', ''quantity'', ''price'', ''last_updated'']"

definition item_cells :: "item \<Rightarrow> cell list" where
  "item_cells r =
     [CInt (i_id r), CStr (i_product_name r), opt_cell CStr (i_category r),
      opt_cell CInt (i_quantity r), opt_cell CDec (i_price r),
      opt_cell CTime (i_last_updated r)]"

text \<open>\<^verbatim>\<open>SELECT * FROM customers ORDER BY id\<close>\<close>

definition select_customers :: "database \<Rightarrow> dataframe" where
  "select_customers d =
     \<lparr>columns = customer_columns,
      rows = map customer_cells (sort_key c_id (customers d))\<rparr>"

text \<open>\<^verbatim>\<open>SELECT * FROM inventory ORDER BY id\<close>\<close>

definition select_inventory :: "database \<Rightarrow> dataframe" where
  "select_inventory d =
     \<lparr>columns = inventory_columns,
      rows = map item_cells (sort_key i_id (inventory d))\<rparr>"

text \<open>
  \<^verbatim>\<open>pd.read_sql_query(sql, conn)\<close>: opens a cursor, runs the query in the
  connection's transaction (which stays open) and builds the frame.
\<close>

definition read_sql_query ::
    "(database \<Rightarrow> dataframe) \<Rightarrow> world \<Rightarrow> (exn + dataframe) \<times> world" where
  "read_sql_query query w =
     (case conn_cursor w of
        Some e \<Rightarrow> (Inl e, w)
      | None \<Rightarrow>
          (case execute_fault (faults w) of
             Some e \<Rightarrow> (Inl e, w)
           | None \<Rightarrow>
               (case tx w of
                  None \<Rightarrow> (Inr (query (db w)), w\<lparr>tx := Some (db w)\<rparr>)
                | Some cur \<Rightarrow> (Inr (query cur), w))))"

text \<open>\<^verbatim>\<open>pd.DataFrame()\<close>, and the frame's \<^verbatim>\<open>.empty\<close> and \<^verbatim>\<open>len\<close>.\<close>

definition DataFrame :: dataframe where
  "DataFrame = \<lparr>columns = [], rows = []\<rparr>"

definition empty :: "dataframe \<Rightarrow> bool" where
  "empty df = (columns df = [] \<or> rows df = [])"

definition len :: "dataframe \<Rightarrow> nat" where
  "len df = length (rows df)"

section \<open>The data access functions\<close>

subsection \<open>\<^verbatim>\<open>init_database\<close> (lines 40-71)\<close>

text \<open>
  Both statements are \<^verbatim>\<open>CREATE TABLE IF NOT EXISTS\<close>; the tables of the model exist,
  so the statements change nothing.  There is no \<^verbatim>\<open>try\<close>: an exception leaves the
  function.
\<close>

definition create_table_if_not_exists :: "database \<Rightarrow> exn option \<times> database" where
  "create_table_if_not_exists d = (None, d)"

definition init_database :: "world \<Rightarrow> pyval outcome \<times> world" where
  "init_database =
     get_db_connection (\<lambda>conn w.
       case conn of
         None \<Rightarrow> (Returned PyNone, w)
       | Some c \<Rightarrow>
           (case conn_cursor w of
              Some e \<Rightarrow> (Raised e, w)
            | None \<Rightarrow>
                (case cursor_execute create_table_if_not_exists [] w of
                   (Some e, w1) \<Rightarrow> (Raised e, w1)
                 | (None, w1) \<Rightarrow>
                     (case cursor_execute create_table_if_not_exists [] w1 of
                        (Some e, w2) \<Rightarrow> (Raised e, w2)
                      | (None, w2) \<Rightarrow>
                          (case conn_commit w2 of
                             (Some e, w3) \<Rightarrow> (Raised e, w3)
                           | (None, w3) \<Rightarrow> (Returned PyNone, w3))))))"

subsection \<open>Customers (lines 74-136)\<close>

definition add_customer ::
    "string option \<Rightarrow> string option \<Rightarrow> string option \<Rightarrow> string option
     \<Rightarrow> world \<Rightarrow> pyval outcome \<times> world" where
  "add_customer name email phone city =
     get_db_connection (\<lambda>conn w.
       case conn of
         None \<Rightarrow> (Returned (PyTuple False ''Database connection failed''), w)
       | Some c \<Rightarrow>
           (case conn_cursor w of
              Some e \<Rightarrow> (Raised e, w)
            | None \<Rightarrow>
                (case execute_and_commit
                        (insert_customer name email phone city (datetime_now w))
                        [name, email, phone, city] w of
                   (None, w1) \<Rightarrow> (Returned (PyTuple True ''Customer added successfully!''), w1)
                 | (Some e, w1) \<Rightarrow>
                     if is_IntegrityError e
                     then rollback_and_return (PyTuple False ''Email already exists!'') w1
                     else rollback_and_return
                            (PyTuple False (''Error: '' @ str_exn e)) w1)))"

definition get_all_customers :: "world \<Rightarrow> pyval outcome \<times> world" where
  "get_all_customers =
     get_db_connection (\<lambda>conn w.
       case conn of
         None \<Rightarrow> (Returned (PyFrame DataFrame), w)
       | Some c \<Rightarrow>
           (case read_sql_query select_customers w of
              (Inr df, w1) \<Rightarrow> (Returned (PyFrame df), w1)
            | (Inl e, w1) \<Rightarrow>
                (Returned (PyFrame DataFrame),
                 st_error (''Error fetching customers: '' @ str_exn e) w1)))"

definition update_customer ::
    "int \<Rightarrow> string option \<Rightarrow> string option \<Rightarrow> string option \<Rightarrow> string option
     \<Rightarrow> world \<Rightarrow> pyval outcome \<times> world" where
  "update_customer customer_id name email phone city =
     get_db_connection (\<lambda>conn w.
       case conn of
         None \<Rightarrow> (Returned (PyTuple False ''Database connection failed''), w)
       | Some c \<Rightarrow>
           (case conn_cursor w of
              Some e \<Rightarrow> (Raised e, w)
            | None \<Rightarrow>
                (case execute_and_commit
                        (update_customers customer_id name email phone city)
                        [name, email, phone, city] w of
                   (None, w1) \<Rightarrow>
                     (Returned (PyTuple True ''Customer updated successfully!''), w1)
                 | (Some e, w1) \<Rightarrow>
                     rollback_and_return (PyTuple False (''Error: '' @ str_exn e)) w1)))"

definition delete_customer :: "int \<Rightarrow> world \<Rightarrow> pyval outcome \<times> world" where
  "delete_customer customer_id =
     get_db_connection (\<lambda>conn w.
       case conn of
         None \<Rightarrow> (Returned (PyStr ''Database connection failed''), w)
       | Some c \<Rightarrow>
           (case conn_cursor w of
              Some e \<Rightarrow> (Raised e, w)
            | None \<Rightarrow>
                (case execute_and_commit (delete_customers customer_id) [] w of
                   (None, w1) \<Rightarrow> (Returned (PyStr ''Customer deleted successfully!''), w1)
                 | (Some e, w1) \<Rightarrow>
                     rollback_and_return (PyStr (''Error: '' @ str_exn e)) w1)))"

subsection \<open>Inventory (lines 139-198)\<close>

definition add_inventory_item ::
    "string option \<Rightarrow> string option \<Rightarrow> int option \<Rightarrow> int option
     \<Rightarrow> world \<Rightarrow> pyval outcome \<times> world" where
  "add_inventory_item product_name category quantity price =
     get_db_connection (\<lambda>conn w.
       case conn of
         None \<Rightarrow> (Returned (PyStr ''Database connection failed''), w)
       | Some c \<Rightarrow>
           (case conn_cursor w of
              Some e \<Rightarrow> (Raised e, w)
            | None \<Rightarrow>
                (case execute_and_commit
                        (insert_inventory product_name category quantity price
                           (datetime_now w))
                        [product_name, category] w of
                   (None, w1) \<Rightarrow>
                     (Returned (PyStr ''Inventory item added successfully!''), w1)
                 | (Some e, w1) \<Rightarrow>
                     rollback_and_return (PyStr (''Error: '' @ str_exn e)) w1)))"

definition get_all_inventory :: "world \<Rightarrow> pyval outcome \<times> world" where
  "get_all_inventory =
     get_db_connection (\<lambda>conn w.
       case conn of
         None \<Rightarrow> (Returned (PyFrame DataFrame), w)
       | Some c \<Rightarrow>
           (case read_sql_query select_inventory w of
              (Inr df, w1) \<Rightarrow> (Returned (PyFrame df), w1)
            | (Inl e, w1) \<Rightarrow>
                (Returned (PyFrame DataFrame),
                 st_error (''Error fetching inventory: '' @ str_exn e) w1)))"

definition update_inventory_item ::
    "int \<Rightarrow> string option \<Rightarrow> string option \<Rightarrow> int option \<Rightarrow> int option
     \<Rightarrow> world \<Rightarrow> pyval outcome \<times> world" where
  "update_inventory_item item_id product_name category quantity price =
     get_db_connection (\<lambda>conn w.
       case conn of
         None \<Rightarrow> (Returned (PyStr ''Database connection failed''), w)
       | Some c \<Rightarrow>
           (case conn_cursor w of
              Some e \<Rightarrow> (Raised e, w)
            | None \<Rightarrow>
                (case execute_and_commit
                        (update_inventory item_id product_name category quantity price
                           (datetime_now w))
                        [product_name, category] w of
                   (None, w1) \<Rightarrow>
                     (Returned (PyStr ''Inventory item updated successfully!''), w1)
                 | (Some e, w1) \<Rightarrow>
                     rollback_and_return (PyStr (''Error: '' @ str_exn e)) w1)))"

definition delete_inventory_item :: "int \<Rightarrow> world \<Rightarrow> pyval outcome \<times> world" where
  "delete_inventory_item item_id =
     get_db_connection (\<lambda>conn w.
       case conn of
         None \<Rightarrow> (Returned (PyStr ''Database connection failed''), w)
       | Some c \<Rightarrow>
           (case conn_cursor w of
              Some e \<Rightarrow> (Raised e, w)
            | None \<Rightarrow>
                (case execute_and_commit (delete_inventory item_id) [] w of
                   (None, w1) \<Rightarrow>
                     (Returned (PyStr ''Inventory item deleted successfully!''), w1)
                 | (Some e, w1) \<Rightarrow>
                     rollback_and_return (PyStr (''Error: '' @ str_exn e)) w1)))"

section \<open>Export as comma-separated text\<close>















section \<open>The list views of the presentation layer\<close>

text \<open>
  The ``View All'' tabs (lines 247-257 and 325-339).  \<^verbatim>\<open>inventory_df['quantity']\<close> is
  the list of the cells of that column; the product of the two columns is taken cell by
  cell, a missing cell giving a missing product, and \<^verbatim>\<open>.sum()\<close> skips the missing
  products.  The value is in hundredths, and \<^verbatim>\<open>f"${total_value:,.2f}"\<close> writes it with
  two decimals and the thousands grouped.
\<close>

definition st_show :: "element \<Rightarrow> world \<Rightarrow> world" where
  "st_show el w = w\<lparr>ui := ui w @ [el]\<rparr>"

fun index_of :: "'a \<Rightarrow> 'a list \<Rightarrow> nat" where
  "index_of x [] = 0"
| "index_of x (y # ys) = (if x = y then 0 else Suc (index_of x ys))"

definition column :: "dataframe \<Rightarrow> string \<Rightarrow> cell list" where
  "column df name = map (\<lambda>r. r ! index_of name (columns df)) (rows df)"








section \<open>The two shapes of the data access functions\<close>

text \<open>
  The six writing functions differ only in the statement and in the three values they
  return, the two reading functions only in the query and the message; the lemmas
  \<open>*_write_call\<close> and \<open>*_read_call\<close> below say so.  These two definitions state the
  shape once, for the proofs.
\<close>

definition write_call ::
    "(timestamp \<Rightarrow> database \<Rightarrow> exn option \<times> database) \<Rightarrow> string option list
     \<Rightarrow> pyval \<Rightarrow> pyval \<Rightarrow> (exn \<Rightarrow> pyval) \<Rightarrow> world \<Rightarrow> pyval outcome \<times> world" where
  "write_call stmt params no_conn ok on_error =
     get_db_connection (\<lambda>conn w.
       case conn of
         None \<Rightarrow> (Returned no_conn, w)
       | Some c \<Rightarrow>
           (case conn_cursor w of
              Some e \<Rightarrow> (Raised e, w)
            | None \<Rightarrow>
                (case execute_and_commit (stmt (datetime_now w)) params w of
                   (None, w1) \<Rightarrow> (Returned ok, w1)
                 | (Some e, w1) \<Rightarrow> rollback_and_return (on_error e) w1)))"

definition read_call ::
    "(database \<Rightarrow> dataframe) \<Rightarrow> (exn \<Rightarrow> string) \<Rightarrow> world \<Rightarrow> pyval outcome \<times> world" where
  "read_call query msg =
     get_db_connection (\<lambda>conn w.
       case conn of
         None \<Rightarrow> (Returned (PyFrame DataFrame), w)
       | Some c \<Rightarrow>
           (case read_sql_query query w of
              (Inr df, w1) \<Rightarrow> (Returned (PyFrame df), w1)
            | (Inl e, w1) \<Rightarrow> (Returned (PyFrame DataFrame), st_error (msg e) w1)))"

section \<open>Calls of the functions, one after another\<close>

text \<open>The nine functions that open a \<^verbatim>\<open>with get_db_connection()\<close> block.\<close>

datatype operation =
    InitDatabase
  | AddCustomer "string option" "string option" "string option" "string option"
  | GetAllCustomers
  | UpdateCustomer int "string option" "string option" "string option" "string option"
  | DeleteCustomer int
  | AddInventoryItem "string option" "string option" "int option" "int option"
  | GetAllInventory
  | UpdateInventoryItem int "string option" "string option" "int option" "int option"
  | DeleteInventoryItem int

fun call :: "operation \<Rightarrow> world \<Rightarrow> pyval outcome \<times> world" where
  "call InitDatabase = init_database"
| "call (AddCustomer name email phone city) = add_customer name email phone city"
| "call GetAllCustomers = get_all_customers"
| "call (UpdateCustomer customer_id name email phone city) =
     update_customer customer_id name email phone city"
| "call (DeleteCustomer customer_id) = delete_customer customer_id"
| "call (AddInventoryItem product_name category quantity price) =
     add_inventory_item product_name category quantity price"
| "call GetAllInventory = get_all_inventory"
| "call (UpdateInventoryItem item_id product_name category quantity price) =
     update_inventory_item item_id product_name category quantity price"
| "call (DeleteInventoryItem item_id) = delete_inventory_item item_id"

text \<open>The connections the pool has handed out and not got back.\<close>

definition handed_out :: "world \<Rightarrow> nat list" where
  "handed_out w = (case the_pool w of None \<Rightarrow> [] | Some p \<Rightarrow> used p)"

text \<open>
  What happens in a process after its start: a call of one of the functions, or a change
  of the surroundings (the store is written by others, the server becomes reachable or
  not, a fault appears or goes, the clock moves).  \<open>run\<close> gives the results of the
  calls, in order.
\<close>

datatype event =
    Call operation
  | Surroundings database "exn option" faults timestamp

fun run :: "event list \<Rightarrow> world \<Rightarrow> pyval outcome list \<times> world" where
  "run [] w = ([], w)"
| "run (Call operation # evs) w =
     (case call operation w of
        (r, w1) \<Rightarrow> (case run evs w1 of (rs, w2) \<Rightarrow> (r # rs, w2)))"
| "run (Surroundings d ce f t # evs) w =
     run evs (w\<lparr>db := d, connect_error := ce, faults := f, clock := t\<rparr>)"

fun calls :: "event list \<Rightarrow> operation list" where
  "calls [] = []"
| "calls (Call operation # evs) = operation # calls evs"
| "calls (Surroundings d ce f t # evs) = calls evs"

text \<open>What each function returns when the \<^verbatim>\<open>with\<close> block is given \<^verbatim>\<open>None\<close>.\<close>

fun no_pool_result :: "operation \<Rightarrow> pyval" where
  "no_pool_result InitDatabase = PyNone"
| "no_pool_result (AddCustomer name email phone city) =
     PyTuple False ''Database connection failed''"
| "no_pool_result GetAllCustomers = PyFrame DataFrame"
| "no_pool_result (UpdateCustomer customer_id name email phone city) =
     PyTuple False ''Database connection failed''"
| "no_pool_result (DeleteCustomer customer_id) = PyStr ''Database connection failed''"
| "no_pool_result (AddInventoryItem product_name category quantity price) =
     PyStr ''Database connection failed''"
| "no_pool_result GetAllInventory = PyFrame DataFrame"
| "no_pool_result (UpdateInventoryItem item_id product_name category quantity price) =
     PyStr ''Database connection failed''"
| "no_pool_result (DeleteInventoryItem item_id) = PyStr ''Database connection failed''"





section \<open>Well-formed states\<close>

text \<open>
  What the schema guarantees of every state of the store: the primary keys and the
  emails are unique, and the values fit their columns.  A text fits when it is no longer
  than the column is wide and has no NUL character (which no text of the store has and
  the driver cannot send).
\<close>

definition fits :: "nat \<Rightarrow> string option \<Rightarrow> bool" where
  "fits n v = (case v of None \<Rightarrow> True | Some s \<Rightarrow> length s \<le> n \<and> CHR 0x00 \<notin> set s)"

definition in_int4 :: "int option \<Rightarrow> bool" where
  "in_int4 v = (case v of None \<Rightarrow> True | Some q \<Rightarrow> - 2147483648 \<le> q \<and> q \<le> 2147483647)"

definition in_decimal_10_2 :: "int option \<Rightarrow> bool" where
  "in_decimal_10_2 v = (case v of None \<Rightarrow> True | Some p \<Rightarrow> \<bar>p\<bar> < 10000000000)"

definition customer_ok :: "customer \<Rightarrow> bool" where
  "customer_ok r =
     (fits 255 (Some (c_name r)) \<and> fits 255 (Some (c_email r)) \<and> fits 50 (c_phone r)
      \<and> fits 100 (c_city r))"

definition item_ok :: "item \<Rightarrow> bool" where
  "item_ok r =
     (fits 255 (Some (i_product_name r)) \<and> fits 100 (i_category r)
      \<and> in_int4 (i_quantity r) \<and> in_decimal_10_2 (i_price r))"

definition store_ok :: "database \<Rightarrow> bool" where
  "store_ok d =
     (distinct (map c_id (customers d)) \<and> distinct (map c_email (customers d))
      \<and> list_all customer_ok (customers d)
      \<and> distinct (map i_id (inventory d)) \<and> list_all item_ok (inventory d))"

text \<open>
  A process in working order: no transaction is open between two calls, no call into the
  driver fails, and a connection can be had (from the pool at rest, or by opening one).
\<close>

definition no_faults :: faults where
  "no_faults = \<lparr>cursor_fault = None, execute_fault = None, commit_fault = None,
                 rollback_fault = None\<rparr>"

definition pool_ready :: "world \<Rightarrow> bool" where
  "pool_ready w =
     (case cache w of
        None \<Rightarrow> connect_error w = None
      | Some (Entry None msgs) \<Rightarrow> False
      | Some (Entry (Some p) msgs) \<Rightarrow>
          msgs = [] \<and> (idle p \<noteq> [] \<or> (length (used p) < maxconn \<and> connect_error w = None)))"

definition healthy :: "world \<Rightarrow> bool" where
  "healthy w = (tx w = None \<and> faults w = no_faults \<and> pool_ready w)"




section \<open>A small store\<close>

definition example_store :: database where
  "example_store =
     \<lparr>customers =
        [\<lparr>c_id = 2, c_name = ''Bo'', c_email = ''bo@x.org'', c_phone = None,
          c_city = Some ''Oslo'', c_created_date = Some 20\<rparr>,
         \<lparr>c_id = 1, c_name = ''Al'', c_email = ''al@x.org'', c_phone = Some ''555'',
          c_city = Some ''Rome'', c_created_date = Some 10\<rparr>],
      customers_id_seq = 3,
      inventory =
        [\<lparr>i_id = 1, i_product_name = ''Widget'', i_category = Some ''Hardware'',
          i_quantity = Some 10, i_price = Some 250, i_last_updated = Some 30\<rparr>],
      inventory_id_seq = 2\<rparr>"

definition example_world :: world where
  "example_world =
     \<lparr>db = example_store, tx = None, connect_error = None, faults = no_faults,
      clock = 100, cache = None, ui = [], pool_creations = 0\<rparr>"

definition empty_store :: database where
  "empty_store = \<lparr>customers = [], customers_id_seq = 1, inventory = [], inventory_id_seq = 1\<rparr>"

text \<open>The server cannot be reached.\<close>

definition unreachable_world :: world where
  "unreachable_world =
     example_world\<lparr>connect_error := Some (OperationalError ''could not connect to server'')\<rparr>"

text \<open>
  The server has dropped the connection: the statement fails, and so does every later
  call on the connection.
\<close>

definition lost_connection :: faults where
  "lost_connection =
     \<lparr>cursor_fault = None,
      execute_fault = Some (OperationalError ''server closed the connection unexpectedly''),
      commit_fault = Some (InterfaceError ''connection already closed''),
      rollback_fault = Some (InterfaceError ''connection already closed'')\<rparr>"

section \<open>Properties\<close>

subsection \<open>Acquiring and returning the connection\<close>

lemma varchar_fits: "fits n v \<Longrightarrow> varchar n v = Inr v"
  by (auto simp: fits_def varchar_def split: option.splits)

lemma putconn_db:
  "db (putconn conn w) = (case tx w of None \<Rightarrow> db w | Some cur \<Rightarrow> rolled_back (db w) cur)"
  by (auto simp: putconn_def Let_def set_pool_def the_pool_def split: option.splits cache_entry.splits)

lemma putconn_ui: "ui (putconn conn w) = ui w"
  by (auto simp: putconn_def Let_def set_pool_def the_pool_def split: option.splits cache_entry.splits)

lemma putconn_tx: "tx (putconn conn w) = None"
  by (auto simp: putconn_def Let_def set_pool_def the_pool_def split: option.splits cache_entry.splits)


lemma customers_rolled_back [simp]: "customers (rolled_back d cur) = customers d"
  by (simp add: rolled_back_def)

lemma inventory_rolled_back [simp]: "inventory (rolled_back d cur) = inventory d"
  by (simp add: rolled_back_def)


lemma insert_customer_duplicate:
  assumes "fits 255 name" "fits 50 phone" "fits 100 city"
    and "r \<in> set (customers d)" "fits 255 (Some (c_email r))"
  shows "\<exists>e cur. insert_customer name (Some (c_email r)) phone city now d = (Some e, cur)
           \<and> is_IntegrityError e \<and> customers cur = customers d"
  using assms(4)
  by (auto simp: insert_customer_def varchar_fits [OF assms(1)] varchar_fits [OF assms(2)]
      varchar_fits [OF assms(3)] varchar_fits [OF assms(5)] Let_def not_null_violation_def
      unique_violation_def split: option.splits)

lemma fits_no_nul: "fits n v \<Longrightarrow> \<not> has_nul v"
  by (auto simp: fits_def has_nul_def split: option.splits)



lemma adapt_error_fits4:
  "fits n a \<Longrightarrow> fits m b \<Longrightarrow> fits k c \<Longrightarrow> fits l d \<Longrightarrow> adapt_error [a, b, c, d] = None"
  by (simp add: adapt_error_def fits_no_nul)

subsection \<open>The data access functions in a process in working order\<close>

lemma add_customer_write_call:
  "add_customer name email phone city =
     write_call (insert_customer name email phone city) [name, email, phone, city]
       (PyTuple False ''Database connection failed'')
       (PyTuple True ''Customer added successfully!'')
       (\<lambda>e. if is_IntegrityError e then PyTuple False ''Email already exists!''
            else PyTuple False (''Error: '' @ str_exn e))"
  unfolding add_customer_def write_call_def
  by (rule arg_cong [where f = get_db_connection])
     (auto simp: fun_eq_iff split: option.splits prod.splits)

lemma update_customer_write_call:
  "update_customer customer_id name email phone city =
     write_call (\<lambda>now. update_customers customer_id name email phone city)
       [name, email, phone, city]
       (PyTuple False ''Database connection failed'')
       (PyTuple True ''Customer updated successfully!'')
       (\<lambda>e. PyTuple False (''Error: '' @ str_exn e))"
  unfolding update_customer_def write_call_def by (rule refl)

lemma delete_customer_write_call:
  "delete_customer customer_id =
     write_call (\<lambda>now. delete_customers customer_id) []
       (PyStr ''Database connection failed'')
       (PyStr ''Customer deleted successfully!'')
       (\<lambda>e. PyStr (''Error: '' @ str_exn e))"
  unfolding delete_customer_def write_call_def by (rule refl)

lemma add_inventory_item_write_call:
  "add_inventory_item product_name category quantity price =
     write_call (insert_inventory product_name category quantity price)
       [product_name, category]
       (PyStr ''Database connection failed'')
       (PyStr ''Inventory item added successfully!'')
       (\<lambda>e. PyStr (''Error: '' @ str_exn e))"
  unfolding add_inventory_item_def write_call_def by (rule refl)

lemma update_inventory_item_write_call:
  "update_inventory_item item_id product_name category quantity price =
     write_call (update_inventory item_id product_name category quantity price)
       [product_name, category]
       (PyStr ''Database connection failed'')
       (PyStr ''Inventory item updated successfully!'')
       (\<lambda>e. PyStr (''Error: '' @ str_exn e))"
  unfolding update_inventory_item_def write_call_def by (rule refl)

lemma delete_inventory_item_write_call:
  "delete_inventory_item item_id =
     write_call (\<lambda>now. delete_inventory item_id) []
       (PyStr ''Database connection failed'')
       (PyStr ''Inventory item deleted successfully!'')
       (\<lambda>e. PyStr (''Error: '' @ str_exn e))"
  unfolding delete_inventory_item_def write_call_def by (rule refl)

lemma ready_acquire:
  assumes "tx w = None" and "pool_ready w"
  shows "\<exists>conn w2. get_db_connection body w =
            (case body (Some conn) w2 of (r, w3) \<Rightarrow> (r, putconn conn w3))
          \<and> db w2 = db w \<and> tx w2 = None \<and> faults w2 = faults w \<and> clock w2 = clock w
          \<and> ui w2 = ui w \<and> connect_error w2 = connect_error w
          \<and> (\<forall>w3. cache w3 = cache w2 \<and> connect_error w3 = connect_error w
                    \<longrightarrow> pool_ready (putconn conn w3))"
proof (cases "cache w")
  case None
  with assms have ce: "connect_error w = None" by (simp add: pool_ready_def)
  show ?thesis
    apply (rule exI, rule exI, rule conjI)
     apply (simp add: get_db_connection_def init_connection_pool_def None ce getconn_def
        new_pool_def)
    using assms
    by (auto simp: pool_ready_def set_pool_def None putconn_def the_pool_def minconn_def
        split: option.splits)
next
  case (Some ent)
  then obtain p where ent: "cache w = Some (Entry (Some p) [])"
    and av: "idle p \<noteq> [] \<or> (length (used p) < maxconn \<and> connect_error w = None)"
    using assms by (auto simp: pool_ready_def split: cache_entry.splits option.splits)
  show ?thesis
  proof (cases "idle p = []")
    case True
    with av have "length (used p) < maxconn" "connect_error w = None" by auto
    then show ?thesis
      apply -
      apply (rule exI, rule exI, rule conjI)
       apply (simp add: get_db_connection_def init_connection_pool_def ent getconn_def True)
      using assms
      by (auto simp: pool_ready_def set_pool_def ent putconn_def the_pool_def minconn_def True
          split: option.splits)
  next
    case False
    then show ?thesis
      apply -
      apply (rule exI, rule exI, rule conjI)
       apply (simp add: get_db_connection_def init_connection_pool_def ent getconn_def)
      using assms
      by (auto simp: pool_ready_def set_pool_def ent putconn_def the_pool_def minconn_def
          split: option.splits)
  qed
qed

lemma putconn_other [simp]:
  "faults (putconn conn w) = faults w" "connect_error (putconn conn w) = connect_error w"
  "clock (putconn conn w) = clock w" "pool_creations (putconn conn w) = pool_creations w"
  by (auto simp: putconn_def Let_def set_pool_def the_pool_def
      split: option.splits cache_entry.splits)

lemma healthy_acquire:
  assumes "healthy w"
  shows "\<exists>conn w2. get_db_connection body w =
            (case body (Some conn) w2 of (r, w3) \<Rightarrow> (r, putconn conn w3))
          \<and> db w2 = db w \<and> tx w2 = None \<and> faults w2 = no_faults \<and> clock w2 = clock w
          \<and> ui w2 = ui w \<and> connect_error w2 = connect_error w
          \<and> (\<forall>w3. cache w3 = cache w2 \<and> faults w3 = no_faults
                    \<and> connect_error w3 = connect_error w \<longrightarrow> healthy (putconn conn w3))"
proof -
  from assms have a: "tx w = None" "pool_ready w" and f: "faults w = no_faults"
    by (simp_all add: healthy_def)
  from ready_acquire [OF a, of body] obtain conn w2 where
    1: "get_db_connection body w = (case body (Some conn) w2 of (r, w3) \<Rightarrow> (r, putconn conn w3))"
    and 2: "db w2 = db w" "tx w2 = None" "faults w2 = faults w" "clock w2 = clock w"
      "ui w2 = ui w" "connect_error w2 = connect_error w"
    and 3: "\<And>w3. cache w3 = cache w2 \<Longrightarrow> connect_error w3 = connect_error w
              \<Longrightarrow> pool_ready (putconn conn w3)"
    by blast
  have "\<forall>w3. cache w3 = cache w2 \<and> faults w3 = no_faults
            \<and> connect_error w3 = connect_error w \<longrightarrow> healthy (putconn conn w3)"
    using 3 by (simp add: healthy_def putconn_tx)
  with 1 2 f show ?thesis by auto
qed

lemma write_call_healthy:
  assumes "healthy w" and "stmt (clock w) (db w) = (err, cur)"
    and "adapt_error params = None"
  shows "fst (write_call stmt params no_conn ok on_error w)
           = Returned (case err of None \<Rightarrow> ok | Some e \<Rightarrow> on_error e)"
    and "db (snd (write_call stmt params no_conn ok on_error w))
           = (case err of None \<Rightarrow> cur | Some e \<Rightarrow> rolled_back (db w) cur)"
    and "ui (snd (write_call stmt params no_conn ok on_error w)) = ui w"
    and "clock (snd (write_call stmt params no_conn ok on_error w)) = clock w"
    and "healthy (snd (write_call stmt params no_conn ok on_error w))"
proof -
  let ?body = "\<lambda>conn w.
       case conn of
         None \<Rightarrow> (Returned no_conn, w)
       | Some c \<Rightarrow>
           (case conn_cursor w of
              Some e \<Rightarrow> (Raised e, w)
            | None \<Rightarrow>
                (case execute_and_commit (stmt (datetime_now w)) params w of
                   (None, w1) \<Rightarrow> (Returned ok, w1)
                 | (Some e, w1) \<Rightarrow> rollback_and_return (on_error e) w1))"
  obtain conn w2 where run: "write_call stmt params no_conn ok on_error w =
        (case ?body (Some conn) w2 of (r, w3) \<Rightarrow> (r, putconn conn w3))"
    and w2: "db w2 = db w" "tx w2 = None" "faults w2 = no_faults" "clock w2 = clock w"
      "ui w2 = ui w" "connect_error w2 = connect_error w"
    and h: "\<And>w3. cache w3 = cache w2 \<Longrightarrow> faults w3 = no_faults
             \<Longrightarrow> connect_error w3 = connect_error w \<Longrightarrow> healthy (putconn conn w3)"
    unfolding write_call_def using healthy_acquire [OF assms(1), of ?body] by blast
  have res: "write_call stmt params no_conn ok on_error w =
      (Returned (case err of None \<Rightarrow> ok | Some e \<Rightarrow> on_error e),
       putconn conn (w2\<lparr>db := (case err of None \<Rightarrow> cur | Some e \<Rightarrow> rolled_back (db w) cur),
                        tx := None\<rparr>))"
    by (cases err)
       (simp_all add: run w2 assms(2,3) conn_cursor_def no_faults_def execute_and_commit_def
        cursor_execute_def conn_commit_def rollback_and_return_def conn_rollback_def
        datetime_now_def)
  show "fst (write_call stmt params no_conn ok on_error w)
           = Returned (case err of None \<Rightarrow> ok | Some e \<Rightarrow> on_error e)"
    by (simp add: res)
  show "db (snd (write_call stmt params no_conn ok on_error w))
           = (case err of None \<Rightarrow> cur | Some e \<Rightarrow> rolled_back (db w) cur)"
    by (simp add: res putconn_db)
  show "ui (snd (write_call stmt params no_conn ok on_error w)) = ui w"
    by (simp add: res putconn_ui w2)
  show "clock (snd (write_call stmt params no_conn ok on_error w)) = clock w"
    by (simp add: res w2)
  show "healthy (snd (write_call stmt params no_conn ok on_error w))"
    by (simp add: res h w2)
qed




lemma rolled_back_same [simp]: "rolled_back d d = d"
  by (simp add: rolled_back_def)

lemma get_all_customers_read_call:
  "get_all_customers =
     read_call select_customers (\<lambda>e. ''Error fetching customers: '' @ str_exn e)"
  unfolding get_all_customers_def read_call_def by (rule refl)

lemma get_all_inventory_read_call:
  "get_all_inventory =
     read_call select_inventory (\<lambda>e. ''Error fetching inventory: '' @ str_exn e)"
  unfolding get_all_inventory_def read_call_def by (rule refl)



lemma database_customers_same [simp]: "d\<lparr>customers := customers d\<rparr> = d"
  by simp





subsection \<open>The small store is well formed\<close>

lemma example_world_healthy: "healthy example_world"
  by (simp add: healthy_def pool_ready_def example_world_def)

lemma example_store_ok: "store_ok example_store"
  by (simp add: store_ok_def customer_ok_def item_ok_def fits_def in_int4_def
      in_decimal_10_2_def example_store_def)

lemma db_example_world: "db example_world = example_store"
  by (simp add: example_world_def)

lemma Al_in_example_store:
  "\<lparr>c_id = 1, c_name = ''Al'', c_email = ''al@x.org'', c_phone = Some ''555'',
    c_city = Some ''Rome'', c_created_date = Some 10\<rparr> \<in> set (customers example_store)"
  by (simp add: example_store_def)

subsection \<open>The calls keep the store well formed\<close>

text \<open>
  The constraints of the two tables (\<open>store_ok\<close>) hold of the empty store, and every call
  of a data access function keeps them, whatever fails on the way: a statement that
  succeeds writes rows that satisfy them, and the tables are otherwise left as they were.
  A call also leaves no transaction open.
\<close>

lemma store_ok_rolled_back [simp]: "store_ok (rolled_back d cur) = store_ok d"
  by (simp add: store_ok_def)

lemma varchar_result_fits:
  assumes "varchar n v = Inr v'" and "\<not> has_nul v"
  shows "fits n v'"
proof (cases v)
  case None
  with assms show ?thesis by (simp add: varchar_def fits_def)
next
  case (Some s)
  have "set (take n s) \<subseteq> set s" by (rule set_take_subset)
  with assms Some show ?thesis
    by (auto simp: varchar_def fits_def has_nul_def split: if_splits)
qed

lemma int4_result: "int4 v = Inr v' \<Longrightarrow> in_int4 v'"
  by (auto simp: int4_def in_int4_def split: option.splits if_splits)

lemma decimal_result: "decimal_10_2 v = Inr v' \<Longrightarrow> in_decimal_10_2 v'"
  by (auto simp: decimal_10_2_def in_decimal_10_2_def split: option.splits if_splits)

lemma no_nul4:
  "adapt_error [a, b, c, d] = None \<Longrightarrow> \<not> has_nul a \<and> \<not> has_nul b \<and> \<not> has_nul c \<and> \<not> has_nul d"
  by (simp add: adapt_error_def split: if_splits)

lemma no_nul2: "adapt_error [a, b] = None \<Longrightarrow> \<not> has_nul a \<and> \<not> has_nul b"
  by (simp add: adapt_error_def split: if_splits)

lemma insert_customer_store_ok:
  assumes "store_ok d" and "adapt_error [name, email, phone, city] = None"
    and "insert_customer name email phone city now d = (None, cur)"
  shows "store_ok cur"
proof -
  note nn = no_nul4 [OF assms(2)]
  from assms(3) obtain name' email' phone' city' where
    v: "varchar 255 name = Inr name'" "varchar 255 email = Inr email'"
       "varchar 50 phone = Inr phone'" "varchar 100 city = Inr city'"
    by (auto simp: insert_customer_def split: sum.splits)
  note f = varchar_result_fits [OF v(1)] varchar_result_fits [OF v(2)]
    varchar_result_fits [OF v(3)] varchar_result_fits [OF v(4)]
  from assms(3) v obtain n m where
    nm: "name' = Some n" "email' = Some m"
    and fresh: "customers_id_seq d \<notin> set (map c_id (customers d))"
      "m \<notin> set (map c_email (customers d))"
    and cur: "cur = d\<lparr>customers_id_seq := customers_id_seq d + 1,
                     customers := customers d @
                       [\<lparr>c_id = customers_id_seq d, c_name = n, c_email = m, c_phone = phone',
                         c_city = city', c_created_date = Some now\<rparr>]\<rparr>"
    by (auto simp: insert_customer_def Let_def split: option.splits if_splits)
  show ?thesis
    using assms(1) fresh f nn nm
    by (simp add: cur store_ok_def customer_ok_def)
qed

lemma map_key_update:
  assumes "\<And>x. k (g x) = k x"
  shows "map k (map (\<lambda>x. if P x then g x else x) xs) = map k xs"
  by (induction xs) (simp_all add: assms)

lemma distinct_map_update:
  assumes "distinct (map k xs)" and "distinct (map f xs)"
    and "\<forall>x\<in>set xs. k x \<noteq> i \<longrightarrow> f x \<noteq> m"
    and "\<And>x. f (g x) = m" and "\<And>x. k (g x) = k x"
  shows "distinct (map f (map (\<lambda>x. if k x = i then g x else x) xs))"
  using assms(1,2,3)
proof (induction xs)
  case Nil
  show ?case by simp
next
  case (Cons a xs)
  then have IH: "distinct (map f (map (\<lambda>x. if k x = i then g x else x) xs))" by simp
  show ?case
  proof (cases "k a = i")
    case True
    with Cons.prems(1) have "\<forall>x\<in>set xs. k x \<noteq> i" by (metis distinct.simps(2) imageI list.simps(9) set_map)
    with Cons.prems(3) have "\<forall>x\<in>set xs. f x \<noteq> m" by simp
    moreover from \<open>\<forall>x\<in>set xs. k x \<noteq> i\<close>
    have "map (\<lambda>x. if k x = i then g x else x) xs = xs" by (induction xs) auto
    ultimately show ?thesis
      using True Cons.prems(2) assms(4) by (auto simp: image_iff)
  next
    case False
    with Cons.prems(3) have fa: "f a \<noteq> m" by simp
    have nin: "f a \<notin> set (map f (map (\<lambda>x. if k x = i then g x else x) xs))"
    proof
      assume "f a \<in> set (map f (map (\<lambda>x. if k x = i then g x else x) xs))"
      then obtain x where x: "x \<in> set xs" "f a = f (if k x = i then g x else x)" by auto
      show False
      proof (cases "k x = i")
        case True
        with x assms(4) fa show False by simp
      next
        case False
        with x Cons.prems(2) show False by (auto simp: image_iff)
      qed
    qed
    from False have "map f (map (\<lambda>x. if k x = i then g x else x) (a # xs))
        = f a # map f (map (\<lambda>x. if k x = i then g x else x) xs)" by simp
    with nin IH show ?thesis by (simp only: distinct.simps simp_thms)
  qed
qed

lemma update_customers_store_ok:
  assumes "store_ok d" and "adapt_error [name, email, phone, city] = None"
    and "update_customers cid name email phone city d = (None, cur)"
  shows "store_ok cur"
proof (cases "cid \<in> set (map c_id (customers d))")
  case False
  with assms(3) have "cur = d"
    by (auto simp: update_customers_def split: sum.splits)
  with assms(1) show ?thesis by simp
next
  case True
  note nn = no_nul4 [OF assms(2)]
  from assms(3) obtain name' email' phone' city' where
    v: "varchar 255 name = Inr name'" "varchar 255 email = Inr email'"
       "varchar 50 phone = Inr phone'" "varchar 100 city = Inr city'"
    by (auto simp: update_customers_def split: sum.splits)
  note f = varchar_result_fits [OF v(1)] varchar_result_fits [OF v(2)]
    varchar_result_fits [OF v(3)] varchar_result_fits [OF v(4)]
  let ?g = "\<lambda>n m (r::customer). r\<lparr>c_name := n, c_email := m, c_phone := phone', c_city := city'\<rparr>"
  from assms(3) v True obtain n m where
    nm: "name' = Some n" "email' = Some m"
    and other: "\<not> list_ex (\<lambda>r. c_id r \<noteq> cid \<and> c_email r = m) (customers d)"
    and cur: "cur = d\<lparr>customers :=
                map (\<lambda>r. if c_id r = cid then ?g n m r else r) (customers d)\<rparr>"
    by (auto simp: update_customers_def split: option.splits if_splits)
  from assms(1) have di: "distinct (map c_id (customers d))"
    and de: "distinct (map c_email (customers d))"
    and ok: "list_all customer_ok (customers d)"
    and inv: "distinct (map i_id (inventory d))" "list_all item_ok (inventory d)"
    by (simp_all add: store_ok_def)
  have "map c_id (map (\<lambda>r. if c_id r = cid then ?g n m r else r) (customers d))
             = map c_id (customers d)"
    by (rule map_key_update) simp
  with di have 1: "distinct (map c_id (map (\<lambda>r. if c_id r = cid then ?g n m r else r)
                  (customers d)))"
    by (simp only:)
  have 2: "distinct (map c_email (map (\<lambda>r. if c_id r = cid then ?g n m r else r)
                  (customers d)))"
    by (rule distinct_map_update [OF di de]) (use other in \<open>auto simp: list_ex_iff\<close>)
  have 3: "list_all customer_ok (map (\<lambda>r. if c_id r = cid then ?g n m r else r)
                  (customers d))"
    using ok f nn nm by (auto simp: list_all_iff customer_ok_def)
  show ?thesis
    using 1 2 3 inv by (simp add: cur store_ok_def)
qed


lemma delete_customers_store_ok:
  assumes "store_ok d" and "delete_customers cid d = (None, cur)"
  shows "store_ok cur"
  using assms by (auto simp: delete_customers_def store_ok_def distinct_map_filter list_all_iff)

lemma insert_inventory_store_ok:
  assumes "store_ok d" and "adapt_error [product_name, category] = None"
    and "insert_inventory product_name category quantity price now d = (None, cur)"
  shows "store_ok cur"
proof -
  note nn = no_nul2 [OF assms(2)]
  from assms(3) obtain product_name' category' quantity' price' where
    v: "varchar 255 product_name = Inr product_name'" "varchar 100 category = Inr category'"
       "int4 quantity = Inr quantity'" "decimal_10_2 price = Inr price'"
    by (auto simp: insert_inventory_def split: sum.splits)
  note f = varchar_result_fits [OF v(1)] varchar_result_fits [OF v(2)]
    int4_result [OF v(3)] decimal_result [OF v(4)]
  from assms(3) v obtain n where
    nm: "product_name' = Some n"
    and fresh: "inventory_id_seq d \<notin> set (map i_id (inventory d))"
    and cur: "cur = d\<lparr>inventory_id_seq := inventory_id_seq d + 1,
                     inventory := inventory d @
                       [\<lparr>i_id = inventory_id_seq d, i_product_name = n,
                         i_category = category', i_quantity = quantity', i_price = price',
                         i_last_updated = Some now\<rparr>]\<rparr>"
    by (auto simp: insert_inventory_def Let_def split: option.splits if_splits)
  show ?thesis
    using assms(1) fresh f nn nm
    by (simp add: cur store_ok_def item_ok_def)
qed

lemma update_inventory_store_ok:
  assumes "store_ok d" and "adapt_error [product_name, category] = None"
    and "update_inventory iid product_name category quantity price now d = (None, cur)"
  shows "store_ok cur"
proof (cases "iid \<in> set (map i_id (inventory d))")
  case False
  with assms(3) have "cur = d"
    by (auto simp: update_inventory_def split: sum.splits)
  with assms(1) show ?thesis by simp
next
  case True
  note nn = no_nul2 [OF assms(2)]
  from assms(3) obtain product_name' category' quantity' price' where
    v: "varchar 255 product_name = Inr product_name'" "varchar 100 category = Inr category'"
       "int4 quantity = Inr quantity'" "decimal_10_2 price = Inr price'"
    by (auto simp: update_inventory_def split: sum.splits)
  note f = varchar_result_fits [OF v(1)] varchar_result_fits [OF v(2)]
    int4_result [OF v(3)] decimal_result [OF v(4)]
  let ?g = "\<lambda>n (r::item). r\<lparr>i_product_name := n, i_category := category',
              i_quantity := quantity', i_price := price', i_last_updated := Some now\<rparr>"
  from assms(3) v True obtain n where
    nm: "product_name' = Some n"
    and cur: "cur = d\<lparr>inventory :=
                map (\<lambda>r. if i_id r = iid then ?g n r else r) (inventory d)\<rparr>"
    by (auto simp: update_inventory_def split: option.splits if_splits)
  from assms(1) have di: "distinct (map i_id (inventory d))"
    and ok: "list_all item_ok (inventory d)"
    and cust: "distinct (map c_id (customers d))" "distinct (map c_email (customers d))"
      "list_all customer_ok (customers d)"
    by (simp_all add: store_ok_def)
  have "map i_id (map (\<lambda>r. if i_id r = iid then ?g n r else r) (inventory d))
             = map i_id (inventory d)"
    by (rule map_key_update) simp
  with di have 1: "distinct (map i_id (map (\<lambda>r. if i_id r = iid then ?g n r else r)
                  (inventory d)))"
    by (simp only:)
  have 3: "list_all item_ok (map (\<lambda>r. if i_id r = iid then ?g n r else r) (inventory d))"
    using ok f nn nm by (auto simp: list_all_iff item_ok_def)
  show ?thesis
    using 1 3 cust by (simp add: cur store_ok_def)
qed

lemma delete_inventory_store_ok:
  assumes "store_ok d" and "delete_inventory iid d = (None, cur)"
  shows "store_ok cur"
  using assms by (auto simp: delete_inventory_def store_ok_def distinct_map_filter list_all_iff)

lemma db_init_connection_pool [simp]:
  "db (snd (init_connection_pool w)) = db w" "tx (snd (init_connection_pool w)) = tx w"
  by (auto simp: init_connection_pool_def split: option.splits cache_entry.splits)

lemma db_getconn:
  "getconn p w = Inr (conn, w2) \<Longrightarrow> db w2 = db w \<and> tx w2 = tx w"
  by (auto simp: getconn_def set_pool_def split: if_splits option.splits cache_entry.splits)

lemma get_db_connection_store_ok:
  assumes "tx w = None" and "store_ok (db w)"
    and body: "\<And>conn w'. tx w' = None \<Longrightarrow> store_ok (db w') \<Longrightarrow>
                store_ok (db (snd (body conn w'))) \<and>
                (conn = None \<longrightarrow> tx (snd (body conn w')) = None)"
  shows "tx (snd (get_db_connection body w)) = None \<and>
         store_ok (db (snd (get_db_connection body w)))"
proof (cases "init_connection_pool w")
  case (Pair po w1)
  from db_init_connection_pool [of w] Pair assms(1,2)
  have w1: "tx w1 = None" "store_ok (db w1)" by simp_all
  show ?thesis
  proof (cases po)
    case None
    with Pair body [OF w1, of None] show ?thesis
      by (simp add: get_db_connection_def)
  next
    case (Some p)
    show ?thesis
    proof (cases "getconn p w1")
      case (Inl e)
      with Pair Some w1 show ?thesis by (simp add: get_db_connection_def)
    next
      case (Inr cw)
      obtain conn w2 where cw: "cw = (conn, w2)" by (cases cw)
      from db_getconn [of p w1 conn w2] Inr cw w1
      have w2: "tx w2 = None" "store_ok (db w2)" by simp_all
      obtain r w3 where b: "body (Some conn) w2 = (r, w3)" by (cases "body (Some conn) w2")
      from body [OF w2, of "Some conn"] b have "store_ok (db w3)" by simp
      then have "store_ok (db (putconn conn w3))"
        by (simp add: putconn_db split: option.splits)
      with Pair Some Inr cw b show ?thesis
        by (simp add: get_db_connection_def putconn_tx)
    qed
  qed
qed

lemma write_call_store_ok:
  assumes "tx w = None" and "store_ok (db w)"
    and stmt: "\<And>now d cur. store_ok d \<Longrightarrow> adapt_error params = None \<Longrightarrow>
                 stmt now d = (None, cur) \<Longrightarrow> store_ok cur"
  shows "tx (snd (write_call stmt params no_conn ok on_error w)) = None \<and>
         store_ok (db (snd (write_call stmt params no_conn ok on_error w)))"
  unfolding write_call_def
proof (rule get_db_connection_store_ok [OF assms(1,2)])
  fix conn :: "nat option" and w' :: world
  assume w': "tx w' = None" "store_ok (db w')"
  obtain err cur where s: "stmt (datetime_now w') (db w') = (err, cur)"
    by (cases "stmt (datetime_now w') (db w')")
  have c: "err = None \<Longrightarrow> adapt_error params = None \<Longrightarrow> store_ok cur"
    using stmt [OF w'(2), of "datetime_now w'" cur] s by simp
  show "store_ok (db (snd (case conn of
           None \<Rightarrow> (Returned no_conn, w')
         | Some c \<Rightarrow>
             (case conn_cursor w' of
                Some e \<Rightarrow> (Raised e, w')
              | None \<Rightarrow>
                  (case execute_and_commit (stmt (datetime_now w')) params w' of
                     (None, w1) \<Rightarrow> (Returned ok, w1)
                   | (Some e, w1) \<Rightarrow> rollback_and_return (on_error e) w1))))) \<and>
        (conn = None \<longrightarrow> tx (snd (case conn of
           None \<Rightarrow> (Returned no_conn, w')
         | Some c \<Rightarrow>
             (case conn_cursor w' of
                Some e \<Rightarrow> (Raised e, w')
              | None \<Rightarrow>
                  (case execute_and_commit (stmt (datetime_now w')) params w' of
                     (None, w1) \<Rightarrow> (Returned ok, w1)
                   | (Some e, w1) \<Rightarrow> rollback_and_return (on_error e) w1)))) = None)"
    using w' s c
    by (cases err)
       (auto simp: execute_and_commit_def cursor_execute_def conn_commit_def
         rollback_and_return_def conn_rollback_def split: option.splits)
qed

lemma read_call_store_ok:
  assumes "tx w = None" and "store_ok (db w)"
  shows "tx (snd (read_call query msg w)) = None \<and>
         store_ok (db (snd (read_call query msg w)))"
  unfolding read_call_def
proof (rule get_db_connection_store_ok [OF assms(1,2)])
  fix conn :: "nat option" and w' :: world
  assume w': "tx w' = None" "store_ok (db w')"
  show "store_ok (db (snd (case conn of
           None \<Rightarrow> (Returned (PyFrame DataFrame), w')
         | Some c \<Rightarrow>
             (case read_sql_query query w' of
                (Inr df, w1) \<Rightarrow> (Returned (PyFrame df), w1)
              | (Inl e, w1) \<Rightarrow> (Returned (PyFrame DataFrame), st_error (msg e) w1))))) \<and>
        (conn = None \<longrightarrow> tx (snd (case conn of
           None \<Rightarrow> (Returned (PyFrame DataFrame), w')
         | Some c \<Rightarrow>
             (case read_sql_query query w' of
                (Inr df, w1) \<Rightarrow> (Returned (PyFrame df), w1)
              | (Inl e, w1) \<Rightarrow> (Returned (PyFrame DataFrame), st_error (msg e) w1)))) = None)"
    using w'
    by (auto simp: read_sql_query_def st_error_def split: option.splits)
qed

lemma init_database_store_ok:
  assumes "tx w = None" and "store_ok (db w)"
  shows "tx (snd (init_database w)) = None \<and> store_ok (db (snd (init_database w)))"
  unfolding init_database_def
proof (rule get_db_connection_store_ok [OF assms(1,2)])
  fix conn :: "nat option" and w' :: world
  assume w': "tx w' = None" "store_ok (db w')"
  show "store_ok (db (snd (case conn of
         None \<Rightarrow> (Returned PyNone, w')
       | Some c \<Rightarrow>
           (case conn_cursor w' of
              Some e \<Rightarrow> (Raised e, w')
            | None \<Rightarrow>
                (case cursor_execute create_table_if_not_exists [] w' of
                   (Some e, w1) \<Rightarrow> (Raised e, w1)
                 | (None, w1) \<Rightarrow>
                     (case cursor_execute create_table_if_not_exists [] w1 of
                        (Some e, w2) \<Rightarrow> (Raised e, w2)
                      | (None, w2) \<Rightarrow>
                          (case conn_commit w2 of
                             (Some e, w3) \<Rightarrow> (Raised e, w3)
                           | (None, w3) \<Rightarrow> (Returned PyNone, w3)))))))) \<and>
        (conn = None \<longrightarrow> tx (snd (case conn of
         None \<Rightarrow> (Returned PyNone, w')
       | Some c \<Rightarrow>
           (case conn_cursor w' of
              Some e \<Rightarrow> (Raised e, w')
            | None \<Rightarrow>
                (case cursor_execute create_table_if_not_exists [] w' of
                   (Some e, w1) \<Rightarrow> (Raised e, w1)
                 | (None, w1) \<Rightarrow>
                     (case cursor_execute create_table_if_not_exists [] w1 of
                        (Some e, w2) \<Rightarrow> (Raised e, w2)
                      | (None, w2) \<Rightarrow>
                          (case conn_commit w2 of
                             (Some e, w3) \<Rightarrow> (Raised e, w3)
                           | (None, w3) \<Rightarrow> (Returned PyNone, w3))))))) = None)"
    using w'
    by (auto simp: cursor_execute_def create_table_if_not_exists_def conn_commit_def
        split: option.splits)
qed

lemma call_keeps_store_ok:
  assumes "tx w = None" and "store_ok (db w)"
  shows "tx (snd (call operation w)) = None \<and> store_ok (db (snd (call operation w)))"
proof (cases operation)
  case InitDatabase
  with init_database_store_ok [OF assms] show ?thesis by simp
next
  case (AddCustomer name email phone city)
  have "tx (snd (add_customer name email phone city w)) = None \<and>
        store_ok (db (snd (add_customer name email phone city w)))"
    unfolding add_customer_write_call
    by (rule write_call_store_ok [OF assms]) (rule insert_customer_store_ok)
  with AddCustomer show ?thesis by simp
next
  case GetAllCustomers
  with read_call_store_ok [OF assms] show ?thesis
    by (simp add: get_all_customers_read_call)
next
  case (UpdateCustomer cid name email phone city)
  have "tx (snd (update_customer cid name email phone city w)) = None \<and>
        store_ok (db (snd (update_customer cid name email phone city w)))"
    unfolding update_customer_write_call
    by (rule write_call_store_ok [OF assms]) (rule update_customers_store_ok)
  with UpdateCustomer show ?thesis by simp
next
  case (DeleteCustomer cid)
  have "tx (snd (delete_customer cid w)) = None \<and>
        store_ok (db (snd (delete_customer cid w)))"
    unfolding delete_customer_write_call
    by (rule write_call_store_ok [OF assms]) (rule delete_customers_store_ok)
  with DeleteCustomer show ?thesis by simp
next
  case (AddInventoryItem product_name category quantity price)
  have "tx (snd (add_inventory_item product_name category quantity price w)) = None \<and>
        store_ok (db (snd (add_inventory_item product_name category quantity price w)))"
    unfolding add_inventory_item_write_call
    by (rule write_call_store_ok [OF assms]) (rule insert_inventory_store_ok)
  with AddInventoryItem show ?thesis by simp
next
  case GetAllInventory
  with read_call_store_ok [OF assms] show ?thesis
    by (simp add: get_all_inventory_read_call)
next
  case (UpdateInventoryItem iid product_name category quantity price)
  have "tx (snd (update_inventory_item iid product_name category quantity price w)) = None \<and>
        store_ok (db (snd (update_inventory_item iid product_name category quantity price w)))"
    unfolding update_inventory_item_write_call
    by (rule write_call_store_ok [OF assms]) (rule update_inventory_store_ok)
  with UpdateInventoryItem show ?thesis by simp
next
  case (DeleteInventoryItem iid)
  have "tx (snd (delete_inventory_item iid w)) = None \<and>
        store_ok (db (snd (delete_inventory_item iid w)))"
    unfolding delete_inventory_item_write_call
    by (rule write_call_store_ok [OF assms]) (rule delete_inventory_store_ok)
  with DeleteInventoryItem show ?thesis by simp
qed

lemma empty_store_ok: "store_ok empty_store"
  by (simp add: store_ok_def empty_store_def)

subsection \<open>C1: creating a customer whose email exists\<close>



subsection \<open>C4: update and delete of an id that matches no row\<close>



subsection \<open>C6: updating the city of a customer\<close>






subsection \<open>C10: updating a customer to an email another customer has\<close>

lemma update_customers_duplicate:
  assumes "cid \<in> set (map c_id (customers d))"
    and "r \<in> set (customers d)" and "c_id r \<noteq> cid"
    and "fits 255 (Some n)" and "fits 255 (Some (c_email r))" and "fits 50 phone"
    and "fits 100 city"
  shows "update_customers cid (Some n) (Some (c_email r)) phone city d
           = (Some (unique_violation ''customers_email_key''), d)"
proof -
  have ex: "list_ex (\<lambda>x. c_id x \<noteq> cid \<and> c_email x = c_email r) (customers d)"
    using assms(2,3) by (auto simp: list_ex_iff)
  show ?thesis
    using assms(1) ex
    by (simp add: update_customers_def varchar_fits [OF assms(4)] varchar_fits [OF assms(5)]
        varchar_fits [OF assms(6)] varchar_fits [OF assms(7)])
qed

text \<open>
  C10.  In a process in working order, \<^verbatim>\<open>update_customer\<close> called for an existing
  row with the email of another row returns \<^verbatim>\<open>(False, "Error: " + str(e))\<close> for the
  unique-constraint violation \<open>e\<close>, which is not the message
  \<^verbatim>\<open>"Email already exists!"\<close>; the update is rolled back (the store is as before and
  no transaction is open); and \<^verbatim>\<open>add_customer\<close> with the same values does return
  \<^verbatim>\<open>(False, "Email already exists!")\<close>.
\<close>

theorem update_customer_duplicate_email:
  assumes "healthy w" and "store_ok (db w)"
    and "cid \<in> set (map c_id (customers (db w)))"
    and "r \<in> set (customers (db w))" and "c_id r \<noteq> cid"
    and "fits 255 (Some n)" and "fits 50 phone" and "fits 100 city"
  shows "fst (update_customer cid (Some n) (Some (c_email r)) phone city w)
           = Returned (PyTuple False
               (''Error: '' @ str_exn (unique_violation ''customers_email_key'')))
       \<and> fst (update_customer cid (Some n) (Some (c_email r)) phone city w)
           \<noteq> Returned (PyTuple False ''Email already exists!'')
       \<and> db (snd (update_customer cid (Some n) (Some (c_email r)) phone city w)) = db w
       \<and> tx (snd (update_customer cid (Some n) (Some (c_email r)) phone city w)) = None
       \<and> fst (add_customer (Some n) (Some (c_email r)) phone city w)
           = Returned (PyTuple False ''Email already exists!'')"
proof -
  from assms(2,4) have len: "fits 255 (Some (c_email r))"
    by (auto simp: store_ok_def customer_ok_def list_all_iff)
  note st = update_customers_duplicate [OF assms(3,4,5,6) len assms(7,8)]
  note ad = adapt_error_fits4 [OF assms(6) len assms(7,8)]
  have 1: "fst (update_customer cid (Some n) (Some (c_email r)) phone city w)
           = Returned (PyTuple False
               (''Error: '' @ str_exn (unique_violation ''customers_email_key'')))"
    and 2: "db (snd (update_customer cid (Some n) (Some (c_email r)) phone city w)) = db w"
    and 3: "healthy (snd (update_customer cid (Some n) (Some (c_email r)) phone city w))"
    unfolding update_customer_write_call
    using write_call_healthy(1,2,5)
      [where stmt = "\<lambda>now. update_customers cid (Some n) (Some (c_email r)) phone city",
        OF assms(1) st ad]
    by simp_all
  obtain e cur where ins:
      "insert_customer (Some n) (Some (c_email r)) phone city (clock w) (db w) = (Some e, cur)"
      "is_IntegrityError e"
    using insert_customer_duplicate [OF assms(6,7,8) assms(4) len] by blast
  have 4: "fst (add_customer (Some n) (Some (c_email r)) phone city w)
           = Returned (PyTuple False ''Email already exists!'')"
    unfolding add_customer_write_call
    using write_call_healthy(1)
      [where stmt = "insert_customer (Some n) (Some (c_email r)) phone city",
        OF assms(1) ins(1) ad] ins(2)
    by simp
  from 3 have 5: "tx (snd (update_customer cid (Some n) (Some (c_email r)) phone city w)) = None"
    by (simp add: healthy_def)
  show ?thesis
    using 1 2 4 5 by (simp add: unique_violation_def)
qed

theorem update_customer_duplicate_email_witness:
  "fst (update_customer 2 (Some ''Bo'') (Some ''al@x.org'') None (Some ''Oslo'') example_world)
     = Returned (PyTuple False (''Error: duplicate key value violates unique constraint ''
                                 @ [CHR 0x22] @ ''customers_email_key'' @ [CHR 0x22]))
   \<and> db (snd (update_customer 2 (Some ''Bo'') (Some ''al@x.org'') None (Some ''Oslo'')
        example_world)) = example_store
   \<and> fst (add_customer (Some ''Bo'') (Some ''al@x.org'') None (Some ''Oslo'') example_world)
     = Returned (PyTuple False ''Email already exists!'')"
proof -
  have s: "store_ok (db example_world)"
    and r: "\<lparr>c_id = 1, c_name = ''Al'', c_email = ''al@x.org'', c_phone = Some ''555'',
              c_city = Some ''Rome'', c_created_date = Some 10\<rparr>
            \<in> set (customers (db example_world))"
    using example_store_ok Al_in_example_store by (simp_all add: db_example_world)
  have i: "2 \<in> set (map c_id (customers (db example_world)))"
    by (simp add: db_example_world example_store_def)
  have f: "fits 255 (Some ''Bo'')" "fits 50 None" "fits 100 (Some ''Oslo'')"
    by (simp_all add: fits_def)
  from update_customer_duplicate_email [OF example_world_healthy s i r _ f]
  show ?thesis by (simp add: db_example_world unique_violation_def)
qed

subsection \<open>C5: the connection goes back to the pool\<close>

lemma get_db_connection_returns:
  assumes "\<And>conn w. cache (snd (body conn w)) = cache w"
  shows "mset (handed_out (snd (get_db_connection body w))) = mset (handed_out w)"
proof -
  have kc: "\<And>conn w r w3. body conn w = (r, w3) \<Longrightarrow> cache w3 = cache w"
    using assms by (metis snd_conv)
  show ?thesis
  proof (cases "init_connection_pool w")
    case (Pair po w1)
    show ?thesis
    proof (cases po)
      case None
      then have "cache w1 = cache w \<or> (cache w = None \<and> cache w1 = Some (Entry None
            [Error (''Error connecting to database: '' @ str_exn (the (connect_error w)))]))"
        using Pair by (auto simp: init_connection_pool_def split: option.splits cache_entry.splits)
      moreover have "the_pool w = None"
        using Pair None by (auto simp: init_connection_pool_def the_pool_def
            split: option.splits cache_entry.splits)
      ultimately show ?thesis
        using Pair None
        by (cases "body None w1")
           (auto simp: get_db_connection_def handed_out_def the_pool_def dest!: kc)
    next
      case (Some p)
      have c1: "\<exists>msgs. cache w1 = Some (Entry (Some p) msgs)"
        and u: "handed_out w = used p"
        using Pair Some
        by (auto simp: init_connection_pool_def handed_out_def the_pool_def new_pool_def
            split: option.splits cache_entry.splits)
      then obtain msgs where c1': "cache w1 = Some (Entry (Some p) msgs)" by blast
      have h1: "handed_out w1 = used p"
        by (simp add: handed_out_def the_pool_def c1')
      show ?thesis
      proof (cases "getconn p w1")
        case (Inl e)
        then show ?thesis
          using Pair Some h1 u by (simp add: get_db_connection_def)
      next
        case (Inr cw)
        obtain conn w2 where cw: "cw = (conn, w2)" by (cases cw)
        obtain r w3 where b: "body (Some conn) w2 = (r, w3)" by (cases "body (Some conn) w2")
        from Inr cw have "\<exists>p'. cache w2 = Some (Entry (Some p') msgs)
                \<and> mset (used p') = mset (used p) + {#conn#}"
          by (auto simp: getconn_def set_pool_def c1' split: if_splits option.splits)
        then obtain p' where p': "cache w2 = Some (Entry (Some p') msgs)"
          "mset (used p') = mset (used p) + {#conn#}" by blast
        from kc [OF b] p' have c3: "cache w3 = Some (Entry (Some p') msgs)" by simp
        have "mset (handed_out (putconn conn w3)) = mset (used p)"
          using p'(2) c3
          by (auto simp: putconn_def Let_def the_pool_def set_pool_def handed_out_def
              split: option.splits)
        then show ?thesis
          using Pair Some Inr cw b u by (simp add: get_db_connection_def)
      qed
    qed
  qed
qed


lemma cache_cursor_execute [simp]: "cache (snd (cursor_execute stmt params w)) = cache w"
  by (simp add: cursor_execute_def split: option.splits prod.splits)

lemma cache_conn_commit [simp]: "cache (snd (conn_commit w)) = cache w"
  by (simp add: conn_commit_def split: option.splits)

lemma cache_conn_rollback [simp]: "cache (snd (conn_rollback w)) = cache w"
  by (simp add: conn_rollback_def split: option.splits)

lemma cache_execute_and_commit [simp]: "cache (snd (execute_and_commit stmt params w)) = cache w"
proof (cases "cursor_execute stmt params w")
  case (Pair err w1)
  have "cache w1 = cache w" using cache_cursor_execute [of stmt params w] Pair by simp
  then show ?thesis
    using Pair by (cases err) (simp_all add: execute_and_commit_def)
qed

lemma cache_rollback_and_return [simp]: "cache (snd (rollback_and_return v w)) = cache w"
proof (cases "conn_rollback w")
  case (Pair err w1)
  have "cache w1 = cache w" using cache_conn_rollback [of w] Pair by simp
  then show ?thesis
    using Pair by (cases err) (simp_all add: rollback_and_return_def)
qed

lemma cache_read_sql_query [simp]: "cache (snd (read_sql_query query w)) = cache w"
  by (simp add: read_sql_query_def split: option.splits)

lemma cache_st_error [simp]: "cache (st_error m w) = cache w"
  by (simp add: st_error_def)

lemma write_call_returns_connection:
  "mset (handed_out (snd (write_call stmt params no_conn ok on_error w))) = mset (handed_out w)"
  unfolding write_call_def
proof (rule get_db_connection_returns)
  fix conn w
  show "cache (snd (case conn of
         None \<Rightarrow> (Returned no_conn, w)
       | Some c \<Rightarrow>
           (case conn_cursor w of
              Some e \<Rightarrow> (Raised e, w)
            | None \<Rightarrow>
                (case execute_and_commit (stmt (datetime_now w)) params w of
                   (None, w1) \<Rightarrow> (Returned ok, w1)
                 | (Some e, w1) \<Rightarrow> rollback_and_return (on_error e) w1)))) = cache w"
  proof (cases "execute_and_commit (stmt (datetime_now w)) params w")
    case (Pair err w1)
    have "cache w1 = cache w"
      using cache_execute_and_commit [of "stmt (datetime_now w)" params w] Pair by simp
    then show ?thesis
      using Pair by (cases err) (simp_all split: option.splits)
  qed
qed

lemma read_call_returns_connection:
  "mset (handed_out (snd (read_call query msg w))) = mset (handed_out w)"
  unfolding read_call_def
proof (rule get_db_connection_returns)
  fix conn w
  show "cache (snd (case conn of
         None \<Rightarrow> (Returned (PyFrame DataFrame), w)
       | Some c \<Rightarrow>
           (case read_sql_query query w of
              (Inr df, w1) \<Rightarrow> (Returned (PyFrame df), w1)
            | (Inl e, w1) \<Rightarrow> (Returned (PyFrame DataFrame), st_error (msg e) w1)))) = cache w"
  proof (cases "read_sql_query query w")
    case (Pair res w1)
    have "cache w1 = cache w" using cache_read_sql_query [of query w] Pair by simp
    then show ?thesis
      using Pair by (cases res) (simp_all split: option.splits)
  qed
qed

lemma init_database_returns_connection:
  "mset (handed_out (snd (init_database w))) = mset (handed_out w)"
  unfolding init_database_def
proof (rule get_db_connection_returns)
  fix conn w
  obtain e1 w1 where 1: "cursor_execute create_table_if_not_exists [] w = (e1, w1)"
    by (cases "cursor_execute create_table_if_not_exists [] w")
  obtain e2 w2 where 2: "cursor_execute create_table_if_not_exists [] w1 = (e2, w2)"
    by (cases "cursor_execute create_table_if_not_exists [] w1")
  obtain e3 w3 where 3: "conn_commit w2 = (e3, w3)"
    by (cases "conn_commit w2")
  have "cache w1 = cache w" "cache w2 = cache w1" "cache w3 = cache w2"
    using cache_cursor_execute [of create_table_if_not_exists "[]" w]
      cache_cursor_execute [of create_table_if_not_exists "[]" w1] cache_conn_commit [of w2] 1 2 3
    by simp_all
  then show "cache (snd (case conn of
         None \<Rightarrow> (Returned PyNone, w)
       | Some c \<Rightarrow>
           (case conn_cursor w of
              Some e \<Rightarrow> (Raised e, w)
            | None \<Rightarrow>
                (case cursor_execute create_table_if_not_exists [] w of
                   (Some e, w1) \<Rightarrow> (Raised e, w1)
                 | (None, w1) \<Rightarrow>
                     (case cursor_execute create_table_if_not_exists [] w1 of
                        (Some e, w2) \<Rightarrow> (Raised e, w2)
                      | (None, w2) \<Rightarrow>
                          (case conn_commit w2 of
                             (Some e, w3) \<Rightarrow> (Raised e, w3)
                           | (None, w3) \<Rightarrow> (Returned PyNone, w3))))))) = cache w"
    using 1 2 3 by (simp split: option.splits)
qed

text \<open>While the body of the \<^verbatim>\<open>with\<close> block runs, the connection is handed out.\<close>

lemma getconn_hands_out:
  assumes "cache w = Some (Entry (Some p) msgs)" and "getconn p w = Inr (conn, w2)"
  shows "conn \<in> set (handed_out w2)"
  using assms
  by (auto simp: getconn_def set_pool_def handed_out_def the_pool_def
      split: if_splits option.splits)

text \<open>
  C5.  For every one of the nine functions that take a connection from the pool, every
  state of the process and every fault (so on every way out of the function: a return
  from the \<^verbatim>\<open>try\<close>, a return from an \<^verbatim>\<open>except\<close> clause, the early return without a
  pool, an exception that leaves the function), the connections handed out by the pool
  after the call are those handed out before it: the one the call took has been given
  back by \<^verbatim>\<open>putconn\<close>.
\<close>

theorem connection_returned_on_every_path:
  "mset (handed_out (snd (call operation w))) = mset (handed_out w)"
  by (cases operation)
     (simp_all add: init_database_returns_connection
       add_customer_write_call update_customer_write_call delete_customer_write_call
       add_inventory_item_write_call update_inventory_item_write_call
       delete_inventory_item_write_call get_all_customers_read_call
       get_all_inventory_read_call write_call_returns_connection
       read_call_returns_connection)

text \<open>
  The hardest way out: the connection is lost, the statement of
  \<^verbatim>\<open>delete_customer\<close> fails, the \<^verbatim>\<open>conn.rollback()\<close> of the \<^verbatim>\<open>except\<close> clause raises
  and the exception leaves the function; the pool has its connection back.
\<close>

theorem connection_returned_on_every_path_witness:
  "fst (call (DeleteCustomer 1) (example_world\<lparr>faults := lost_connection\<rparr>))
     = Raised (InterfaceError ''connection already closed'')
   \<and> handed_out (snd (call (DeleteCustomer 1) (example_world\<lparr>faults := lost_connection\<rparr>)))
     = []"
proof -
  have 1: "fst (call (DeleteCustomer 1) (example_world\<lparr>faults := lost_connection\<rparr>))
     = Raised (InterfaceError ''connection already closed'')"
    by (simp add: example_world_def lost_connection_def delete_customer_def
      get_db_connection_def init_connection_pool_def getconn_def new_pool_def set_pool_def
      conn_cursor_def execute_and_commit_def cursor_execute_def adapt_error_def
      rollback_and_return_def conn_rollback_def)
  have 2: "handed_out (example_world\<lparr>faults := lost_connection\<rparr>) = []"
    by (simp add: handed_out_def the_pool_def example_world_def)
  from connection_returned_on_every_path
         [of "DeleteCustomer 1" "example_world\<lparr>faults := lost_connection\<rparr>"] 1 2
  show ?thesis by simp
qed

subsection \<open>C9: a failed pool creation is kept\<close>

lemma call_without_pool:
  assumes "cache w = Some (Entry None msgs)"
  shows "call operation w = (Returned (no_pool_result operation), w\<lparr>ui := ui w @ msgs\<rparr>)"
  using assms
  by (cases operation)
     (simp_all add: init_database_def add_customer_def get_all_customers_def
       update_customer_def delete_customer_def add_inventory_item_def get_all_inventory_def
       update_inventory_item_def delete_inventory_item_def get_db_connection_def
       init_connection_pool_def)

lemma first_call_fails:
  assumes "cache w = None" and "connect_error w = Some e"
  shows "call operation w =
           (Returned (no_pool_result operation),
            w\<lparr>cache := Some (Entry None
                          [Error (''Error connecting to database: '' @ str_exn e)]),
              ui := ui w @ [Error (''Error connecting to database: '' @ str_exn e)],
              pool_creations := Suc (pool_creations w)\<rparr>)"
  using assms
  by (cases operation)
     (simp_all add: init_database_def add_customer_def get_all_customers_def
       update_customer_def delete_customer_def add_inventory_item_def get_all_inventory_def
       update_inventory_item_def delete_inventory_item_def get_db_connection_def
       init_connection_pool_def)

lemma run_without_pool:
  assumes "cache w = Some (Entry None [m])"
  shows "fst (run evs w) = map (\<lambda>operation. Returned (no_pool_result operation)) (calls evs)
       \<and> cache (snd (run evs w)) = Some (Entry None [m])
       \<and> pool_creations (snd (run evs w)) = pool_creations w
       \<and> ui (snd (run evs w)) = ui w @ replicate (length (calls evs)) m"
  using assms
proof (induction evs w rule: run.induct)
  case (1 w)
  then show ?case by simp
next
  case (2 operation evs w)
  let ?w1 = "w\<lparr>ui := ui w @ [m]\<rparr>"
  have c: "call operation w = (Returned (no_pool_result operation), ?w1)"
    by (rule call_without_pool [OF "2.prems"])
  have "cache ?w1 = Some (Entry None [m])" using "2.prems" by simp
  from "2.IH" [OF c [symmetric] this] show ?case
    by (cases "run evs ?w1") (simp add: c replicate_append_same)
next
  case (3 d ce f t evs w)
  then show ?case by simp
qed

text \<open>
  C9.  If the cache is empty and the server cannot be reached, the first call of any of
  the nine functions runs \<^verbatim>\<open>SimpleConnectionPool(...)\<close> once, gets no pool and
  returns its no-connection value.  From then on, whatever happens around the process
  (the server may become reachable), every call of every function again gets no pool and
  returns its no-connection value (\<^verbatim>\<open>"Database connection failed"\<close> from the writing
  functions, an empty frame from the listing ones), the page shows the message
  \<^verbatim>\<open>"Error connecting to database: ..."\<close> once per call, and the pool is not created
  again: the count of creations stays at one.
\<close>

theorem pool_failure_is_memoized:
  assumes "cache w = None" and "connect_error w = Some e"
  shows "fst (call operation w) = Returned (no_pool_result operation)
       \<and> pool_creations (snd (call operation w)) = Suc (pool_creations w)
       \<and> fst (run evs (snd (call operation w)))
           = map (\<lambda>operation. Returned (no_pool_result operation)) (calls evs)
       \<and> the_pool (snd (run evs (snd (call operation w)))) = None
       \<and> pool_creations (snd (run evs (snd (call operation w)))) = Suc (pool_creations w)
       \<and> ui (snd (run evs (snd (call operation w))))
           = ui w @ replicate (Suc (length (calls evs)))
                      (Error (''Error connecting to database: '' @ str_exn e))"
proof -
  let ?m = "Error (''Error connecting to database: '' @ str_exn e)"
  let ?w1 = "w\<lparr>cache := Some (Entry None [?m]), ui := ui w @ [?m],
               pool_creations := Suc (pool_creations w)\<rparr>"
  have c: "call operation w = (Returned (no_pool_result operation), ?w1)"
    by (rule first_call_fails [OF assms])
  have "cache ?w1 = Some (Entry None [?m])" by simp
  from run_without_pool [OF this, of evs] show ?thesis
    by (simp add: c the_pool_def replicate_append_same)
qed

theorem pool_failure_is_memoized_witness:
  "fst (call GetAllCustomers unreachable_world) = Returned (PyFrame DataFrame)
   \<and> fst (run [Surroundings example_store None no_faults 200,
               Call (AddCustomer (Some ''Cy'') (Some ''cy@x.org'') None None),
               Call GetAllInventory,
               Call (DeleteCustomer 1)]
            (snd (call GetAllCustomers unreachable_world)))
       = [Returned (PyTuple False ''Database connection failed''),
          Returned (PyFrame DataFrame),
          Returned (PyStr ''Database connection failed'')]
   \<and> pool_creations (snd (run [Surroundings example_store None no_faults 200,
               Call (AddCustomer (Some ''Cy'') (Some ''cy@x.org'') None None),
               Call GetAllInventory,
               Call (DeleteCustomer 1)]
            (snd (call GetAllCustomers unreachable_world)))) = 1"
  using pool_failure_is_memoized [of unreachable_world
      "OperationalError ''could not connect to server''" GetAllCustomers
      "[Surroundings example_store None no_faults 200,
        Call (AddCustomer (Some ''Cy'') (Some ''cy@x.org'') None None),
        Call GetAllInventory,
        Call (DeleteCustomer 1)]"]
  by (simp add: unreachable_world_def example_world_def)

subsection \<open>C2: what the data access functions return on failure\<close>



lemma faults_conn_commit [simp]: "faults (snd (conn_commit w)) = faults w"
  by (simp add: conn_commit_def split: option.splits)








subsection \<open>C3: listing a table\<close>



lemma empty_DataFrame [simp]: "empty DataFrame" "len DataFrame = 0"
  by (simp_all add: empty_def len_def DataFrame_def)




subsection \<open>C7: the total inventory value\<close>

lemma healthy_st_show [simp]: "healthy (st_show el w) = healthy w"
  by (auto simp: healthy_def pool_ready_def st_show_def split: option.splits cache_entry.splits)

lemma sort_key_Nil_iff [simp]: "(sort_key k xs = []) = (xs = [])"
  by (metis length_sort length_0_conv)

lemma db_st_show [simp]: "db (st_show el w) = db w"
  by (simp add: st_show_def)

lemma ui_st_show [simp]: "ui (st_show el w) = ui w @ [el]"
  by (simp add: st_show_def)

lemma empty_select_customers [simp]: "empty (select_customers d) = (customers d = [])"
  by (simp add: empty_def select_customers_def customer_columns_def)

lemma empty_select_inventory [simp]: "empty (select_inventory d) = (inventory d = [])"
  by (simp add: empty_def select_inventory_def inventory_columns_def)













subsection \<open>C8: the exported text read back\<close>

















end
